theory Spec2Isabelle
  imports Main
begin

section \<open>JavaScript values\<close>

text \<open>
  The adapter works on untyped JavaScript values (\<open>unknown\<close>, \<open>Record<string, unknown>\<close>).
  They are modelled by one datatype. An object is an association list in insertion order,
  which is the order \<open>Object.entries\<close> walks it. Numbers are integers; \<open>Date\<close> values,
  inherited (prototype) properties and the special ordering of integer-like keys are outside
  the model.
\<close>

datatype json =
    JUndef
  | JNull
  | JBool bool
  | JNum int
  | JStr string
  | JArr "json list"
  | JObj "(string \<times> json) list"

type_synonym obj = "(string \<times> json) list"

text \<open>Reading \<open>o[k]\<close> from an own property: \<open>undefined\<close> when the key is absent.\<close>

fun obj_get :: "obj \<Rightarrow> string \<Rightarrow> json" where
  "obj_get [] k = JUndef"
| "obj_get ((k', v) # kvs) k = (if k' = k then v else obj_get kvs k)"

text \<open>The assignment \<open>o[k] = v\<close>: an existing key keeps its place, a new key goes last.\<close>

fun obj_set :: "string \<Rightarrow> json \<Rightarrow> obj \<Rightarrow> obj" where
  "obj_set k v [] = [(k, v)]"
| "obj_set k v ((k', v') # kvs) = (if k' = k then (k, v) # kvs else (k', v') # obj_set k v kvs)"

text \<open>\<open>delete o[k]\<close>.\<close>

fun obj_del :: "string \<Rightarrow> obj \<Rightarrow> obj" where
  "obj_del k [] = []"
| "obj_del k ((k', v') # kvs) = (if k' = k then obj_del k kvs else (k', v') # obj_del k kvs)"

text \<open>The spread \<open>{ ...a, ...b }\<close>: the entries of \<open>b\<close> are assigned over \<open>a\<close> in order.\<close>

definition obj_spread :: "obj \<Rightarrow> obj \<Rightarrow> obj" where
  "obj_spread a b = foldl (\<lambda>acc kv. obj_set (fst kv) (snd kv) acc) a b"

text \<open>
  Property access \<open>x.k\<close> on an arbitrary value. Reading a property of a primitive gives
  \<open>undefined\<close> here (string indices and \<open>length\<close> are not modelled); the typed callers only
  read from objects.
\<close>

fun js_prop :: "json \<Rightarrow> string \<Rightarrow> json" where
  "js_prop (JObj kvs) k = obj_get kvs k"
| "js_prop _ k = JUndef"

text \<open>JavaScript truthiness, as \<open>if (x)\<close> and \<open>!x\<close> test it.\<close>

fun truthy :: "json \<Rightarrow> bool" where
  "truthy JUndef = False"
| "truthy JNull = False"
| "truthy (JBool b) = b"
| "truthy (JNum n) = (n \<noteq> 0)"
| "truthy (JStr s) = (s \<noteq> [])"
| "truthy (JArr _) = True"
| "truthy (JObj _) = True"

text \<open>Decimal digits of a natural number, for \<open>String(n)\<close>.\<close>

fun digits :: "nat \<Rightarrow> string" where
  "digits n = (if n < 10 then [char_of (48 + n)] else digits (n div 10) @ [char_of (48 + n mod 10)])"

declare digits.simps [simp del]

definition show_int :: "int \<Rightarrow> string" where
  "show_int i = (if i < 0 then CHR ''-'' # digits (nat (- i)) else digits (nat i))"

fun join_comma :: "string list \<Rightarrow> string" where
  "join_comma [] = []"
| "join_comma [s] = s"
| "join_comma (s # t # ss) = s @ '','' @ join_comma (t # ss)"

text \<open>
  \<open>String(x)\<close>: a string is itself, an object is \<open>[object Object]\<close>, an array is its
  elements joined by commas with \<open>null\<close> and \<open>undefined\<close> elements left empty.
\<close>

fun js_String :: "json \<Rightarrow> string" where
  "js_String JUndef = ''undefined''"
| "js_String JNull = ''null''"
| "js_String (JBool b) = (if b then ''true'' else ''false'')"
| "js_String (JNum n) = show_int n"
| "js_String (JStr s) = s"
| "js_String (JArr xs) =
     join_comma (map (\<lambda>x. if x = JUndef \<or> x = JNull then [] else js_String x) xs)"
| "js_String (JObj _) = ''[object Object]''"

section \<open>Condition Normalizer: \<open>convertWhereArrayToRecord\<close>\<close>

text \<open>
  An element of the \<open>Where[]\<close> array is the object
  \<open>{ field, operator, value, connector }\<close>.
\<close>

definition Where :: "string \<Rightarrow> string \<Rightarrow> json \<Rightarrow> string \<Rightarrow> json" where
  "Where f operator v connector =
     JObj [(''field'', JStr f), (''operator'', JStr operator), (''value'', v),
           (''connector'', JStr connector)]"

text \<open>The \<open>switch (operator)\<close> that names the operator key; an unknown operator is kept.\<close>

definition opKey :: "json \<Rightarrow> string" where
  "opKey operator =
    (if operator = JStr ''eq'' \<or> operator = JStr ''equals'' then ''equals''
     else if operator = JStr ''ne'' \<or> operator = JStr ''not'' then ''not''
     else if operator = JStr ''in'' then ''in''
     else if operator = JStr ''not_in'' \<or> operator = JStr ''notIn'' then ''notIn''
     else if operator = JStr ''gt'' then ''gt''
     else if operator = JStr ''gte'' then ''gte''
     else if operator = JStr ''lt'' then ''lt''
     else if operator = JStr ''lte'' then ''lte''
     else if operator = JStr ''contains'' then ''contains''
     else if operator = JStr ''starts_with'' \<or> operator = JStr ''startsWith'' then ''startsWith''
     else if operator = JStr ''ends_with'' \<or> operator = JStr ''endsWith'' then ''endsWith''
     else js_String operator)"

text \<open>\<open>const conditionObj = { [field]: { [opKey]: value } }\<close>.\<close>

definition conditionObj :: "json \<Rightarrow> json" where
  "conditionObj condition =
     JObj [(js_String (js_prop condition ''field''),
            JObj [(opKey (js_prop condition ''operator''), js_prop condition ''value'')])]"

text \<open>
  Closing an open OR group: a group of one is pushed bare, a larger one as \<open>{ OR: group }\<close>.
\<close>

definition closeOrGroup :: "json list \<Rightarrow> json list option \<Rightarrow> json list" where
  "closeOrGroup finalConditions currentOrGroup =
     (case currentOrGroup of
        None \<Rightarrow> finalConditions
      | Some g \<Rightarrow>
          (if length g = 1 then finalConditions @ [hd g]
           else finalConditions @ [JObj [(''OR'', JArr g)]]))"

text \<open>
  The main loop over the conditions that have a field. The state is the pair
  \<open>finalConditions\<close>, \<open>currentOrGroup\<close> (\<open>None\<close> is \<open>null\<close>); the result is
  \<open>finalConditions\<close> after the remaining group is closed.
\<close>

fun groupConditions :: "json list \<Rightarrow> json list \<Rightarrow> json list option \<Rightarrow> json list" where
  "groupConditions [] finalConditions currentOrGroup =
     closeOrGroup finalConditions currentOrGroup"
| "groupConditions (condition # rest) finalConditions currentOrGroup =
     (if js_prop condition ''connector'' = JStr ''OR''
      then groupConditions rest finalConditions
             (Some ((case currentOrGroup of None \<Rightarrow> [] | Some g \<Rightarrow> g) @ [conditionObj condition]))
      else groupConditions rest
             (closeOrGroup finalConditions currentOrGroup @ [conditionObj condition]) None)"

definition convertWhereArrayToRecord :: "json \<Rightarrow> json option" where
  "convertWhereArrayToRecord whereArray =
     (case whereArray of
        JArr cs \<Rightarrow>
          (let conditions = filter (\<lambda>c. truthy (js_prop c ''field'')) cs in
           if length conditions = 0 then None
           else
             (let finalConditions = groupConditions conditions [] None in
              if length finalConditions = 0 then None
              else if length finalConditions = 1 then Some (hd finalConditions)
              else Some (JObj [(''AND'', JArr finalConditions)])))
      | _ \<Rightarrow> None)"

section \<open>Selector Compiler: \<open>escapeRegex\<close> and \<open>convertWhereToSelector\<close>\<close>

text \<open>
  The character class of \<open>escapeRegex\<close>: dot, star, plus, question mark, caret, dollar,
  braces, parentheses, pipe, square brackets and backslash.
\<close>

definition backslash :: char where
  "backslash = CHR 0x5C"

definition metachars :: "char list" where
  "metachars = ''.*+?^${}()|[]'' @ [backslash]"

text \<open>\<open>value.replace(/[.*+?^${}()|[\]\\]/g, "\\$&")\<close>: each match is replaced by a
  backslash and the match itself.\<close>

fun escapeRegex :: "string \<Rightarrow> string" where
  "escapeRegex [] = []"
| "escapeRegex (c # cs) =
     (if c \<in> set metachars then backslash # c # escapeRegex cs else c # escapeRegex cs)"

text \<open>One step of the inner \<open>switch (op)\<close>, assigning into \<open>operators\<close>.\<close>

definition convertOperator :: "obj \<Rightarrow> string \<times> json \<Rightarrow> obj" where
  "convertOperator operators e =
    (let op = fst e; opValue = snd e in
     if op = ''equals'' then obj_set ''$eq'' opValue operators
     else if op = ''not'' then obj_set ''$ne'' opValue operators
     else if op = ''in'' then obj_set ''$in'' opValue operators
     else if op = ''notIn'' then obj_set ''$nin'' opValue operators
     else if op = ''gt'' then obj_set ''$gt'' opValue operators
     else if op = ''gte'' then obj_set ''$gte'' opValue operators
     else if op = ''lt'' then obj_set ''$lt'' opValue operators
     else if op = ''lte'' then obj_set ''$lte'' opValue operators
     else if op = ''contains''
       then obj_set ''$regex'' (JStr (''.*'' @ escapeRegex (js_String opValue) @ ''.*'')) operators
     else if op = ''startsWith''
       then obj_set ''$regex'' (JStr (''^'' @ escapeRegex (js_String opValue) @ ''.*'')) operators
     else if op = ''endsWith''
       then obj_set ''$regex'' (JStr (''.*'' @ escapeRegex (js_String opValue) @ ''$'')) operators
     else obj_set op opValue operators)"

definition convertOperators :: "obj \<Rightarrow> obj" where
  "convertOperators ops = foldl convertOperator [] ops"

text \<open>
  The height of the calls \<open>convertWhereToSelector\<close> makes below a value: an array is first
  turned into a record of at most three levels (\<open>AND\<close> over \<open>OR\<close> over condition objects).
\<close>

fun callHeight :: "json \<Rightarrow> nat" and callHeightEntry :: "string \<times> json \<Rightarrow> nat" where
  "callHeight (JArr xs) = 4"
| "callHeight (JObj kvs) = Suc (foldr max (map callHeightEntry kvs) 0)"
| "callHeight _ = 0"
| "callHeightEntry (k, v) =
     (if k = ''AND'' \<or> k = ''OR''
      then (case v of JArr items \<Rightarrow> foldr max (map callHeight items) 0 | _ \<Rightarrow> 0)
      else 0)"

lemma callHeight_conditionObj: "callHeight (conditionObj c) = 1"
  by (simp add: conditionObj_def)


lemma foldr_max_ge: "x \<in> set xs \<Longrightarrow> f x \<le> foldr max (map f xs) (0::nat)"
  by (induction xs) (auto simp: max_def)

lemma foldr_max_le: "(\<And>x. x \<in> set xs \<Longrightarrow> f x \<le> n) \<Longrightarrow> foldr max (map f xs) (0::nat) \<le> n"
  by (induction xs) auto

lemma callHeight_item:
  assumes "(k, JArr items) \<in> set kvs" "k = ''AND'' \<or> k = ''OR''" "x \<in> set items"
  shows "callHeight x < callHeight (JObj kvs)"
proof -
  have "callHeight x \<le> foldr max (map callHeight items) 0"
    using assms(3) by (rule foldr_max_ge)
  also have "\<dots> = callHeightEntry (k, JArr items)"
    using assms(2) by auto
  also have "\<dots> \<le> foldr max (map callHeightEntry kvs) 0"
    using assms(1) by (rule foldr_max_ge)
  finally show ?thesis by simp
qed

lemma callHeight_closeOrGroup:
  assumes "\<And>x. x \<in> set fc \<Longrightarrow> callHeight x \<le> 2"
    and "\<And>g x. og = Some g \<Longrightarrow> x \<in> set g \<Longrightarrow> callHeight x \<le> 1"
    and "x \<in> set (closeOrGroup fc og)"
  shows "callHeight x \<le> 2"
proof (cases og)
  case None
  then show ?thesis using assms by (simp add: closeOrGroup_def)
next
  case (Some g)
  have "foldr max (map callHeight g) 0 \<le> 1"
    using assms(2)[OF Some] by (intro foldr_max_le) auto
  moreover have "length g = 1 \<Longrightarrow> callHeight (hd g) \<le> 1"
    using assms(2)[OF Some, of "hd g"] by (cases g) auto
  ultimately show ?thesis
    using assms(1,3) Some by (auto simp: closeOrGroup_def split: if_splits)
qed

lemma callHeight_groupConditions:
  assumes "\<And>x. x \<in> set fc \<Longrightarrow> callHeight x \<le> 2"
    and "\<And>g x. og = Some g \<Longrightarrow> x \<in> set g \<Longrightarrow> callHeight x \<le> 1"
    and "x \<in> set (groupConditions cs fc og)"
  shows "callHeight x \<le> 2"
  using assms
proof (induction cs arbitrary: fc og)
  case Nil
  then show ?case using callHeight_closeOrGroup[of fc og x] by simp
next
  case (Cons c cs)
  show ?case
  proof (cases "js_prop c ''connector'' = JStr ''OR''")
    case True
    let ?og = "Some ((case og of None \<Rightarrow> [] | Some g \<Rightarrow> g) @ [conditionObj c])"
    have "x \<in> set (groupConditions cs fc ?og)"
      using Cons.prems(3) True by simp
    moreover have "\<And>g y. ?og = Some g \<Longrightarrow> y \<in> set g \<Longrightarrow> callHeight y \<le> 1"
      using Cons.prems(2) by (auto simp: callHeight_conditionObj split: option.splits)
    ultimately show ?thesis
      using Cons.IH[of fc ?og] Cons.prems(1) by blast
  next
    case False
    let ?fc = "closeOrGroup fc og @ [conditionObj c]"
    have "x \<in> set (groupConditions cs ?fc None)"
      using Cons.prems(3) False by simp
    moreover have "\<And>y. y \<in> set ?fc \<Longrightarrow> callHeight y \<le> 2"
      using callHeight_closeOrGroup[of fc og] Cons.prems(1,2)
      by (auto simp: callHeight_conditionObj)
    ultimately show ?thesis
      using Cons.IH[of ?fc None] by blast
  qed
qed

lemma callHeight_convertWhereArrayToRecord:
  assumes "convertWhereArrayToRecord w = Some r"
  shows "callHeight r \<le> 3"
proof -
  obtain cs where w: "w = JArr cs"
    using assms by (cases w) (auto simp: convertWhereArrayToRecord_def)
  let ?fc = "groupConditions (filter (\<lambda>c. truthy (js_prop c ''field'')) cs) [] None"
  have le2: "\<And>x. x \<in> set ?fc \<Longrightarrow> callHeight x \<le> 2"
    by (rule callHeight_groupConditions[of "[]" None]) auto
  have "r = hd ?fc \<and> length ?fc = 1 \<or> r = JObj [(''AND'', JArr ?fc)]"
    using assms w by (auto simp: convertWhereArrayToRecord_def Let_def split: if_splits)
  then show ?thesis
  proof
    assume a: "r = hd ?fc \<and> length ?fc = 1"
    then have "hd ?fc \<in> set ?fc" by (cases ?fc) auto
    then show ?thesis using le2 a by fastforce
  next
    assume "r = JObj [(''AND'', JArr ?fc)]"
    moreover have "foldr max (map callHeight ?fc) 0 \<le> 2"
      using le2 by (intro foldr_max_le) auto
    ultimately show ?thesis by simp
  qed
qed

lemma callHeight_item_lt:
  "(k, JArr items) \<in> set kvs \<Longrightarrow> k = ''AND'' \<or> k = ''OR'' \<Longrightarrow> x \<in> set items \<Longrightarrow>
   callHeight x < Suc (foldr max (map callHeightEntry kvs) 0)"
  using callHeight_item[of k items kvs x] by simp

lemma callHeight_converted_item:
  assumes "(k, JArr items) \<in> set kvs" "k = ''AND'' \<or> k = ''OR''" "x \<in> set items"
    and "convertWhereArrayToRecord w = Some (JObj kvs)"
  shows "callHeight x < 4"
  using callHeight_item[OF assms(1-3)] callHeight_convertWhereArrayToRecord[OF assms(4)]
  by simp

text \<open>
  \<open>convertWhereToSelector\<close>. An array is first converted by
  \<open>convertWhereArrayToRecord\<close> (\<open>null\<close> gives the empty selector); anything that is
  then not an object gives the empty selector; the entries of the object are walked in order.
\<close>

function convertWhereToSelector :: "json \<Rightarrow> json" where
  "convertWhereToSelector w =
     (case (case w of JArr cs \<Rightarrow> convertWhereArrayToRecord w | _ \<Rightarrow> Some w) of
        Some (JObj whereRecord) \<Rightarrow>
          JObj (foldl
            (\<lambda>selector (key, v).
               if key = ''AND'' \<or> key = ''OR'' then
                 (case v of
                    JArr items \<Rightarrow>
                      obj_set (if key = ''AND'' then ''$and'' else ''$or'')
                        (JArr (map convertWhereToSelector items)) selector
                  | _ \<Rightarrow> selector)
               else if key = ''id'' then obj_set ''_id'' v selector
               else
                 (case v of
                    JObj ops \<Rightarrow>
                      (let operators = convertOperators ops in
                       if length operators > 0 then obj_set key (JObj operators) selector
                       else obj_set key v selector)
                  | _ \<Rightarrow> obj_set key v selector))
            [] whereRecord)
      | _ \<Rightarrow> JObj [])"
  by pat_completeness auto
termination
  apply (relation "measure callHeight")
   apply simp
  apply (auto split: json.splits
      intro: callHeight_item_lt[of "''AND''"] callHeight_item_lt[of "''OR''"]
             callHeight_converted_item[of "''AND''"] callHeight_converted_item[of "''OR''"])
  done


declare convertWhereToSelector.simps [simp del]

section \<open>The in-memory store's selector matching: \<open>matchesSelector\<close>\<close>

text \<open>
  \<open>===\<close> between a value of a stored document and a value of the query: primitives are
  compared by value; an array or an object is equal only to itself, and the document and the
  query share no reference.
\<close>

fun strict_eq :: "json \<Rightarrow> json \<Rightarrow> bool" where
  "strict_eq (JArr _) _ = False"
| "strict_eq (JObj _) _ = False"
| "strict_eq a b = (a = b)"

text \<open>\<open><\<close> and \<open><=\<close> on strings: by code units, left to right.\<close>

fun str_lt :: "string \<Rightarrow> string \<Rightarrow> bool" where
  "str_lt [] [] = False"
| "str_lt [] (b # bs) = True"
| "str_lt (a # as) [] = False"
| "str_lt (a # as) (b # bs) =
     (if (of_char a :: nat) < of_char b then True
      else if (of_char b :: nat) < of_char a then False
      else str_lt as bs)"

definition str_le :: "string \<Rightarrow> string \<Rightarrow> bool" where
  "str_le a b = (\<not> str_lt b a)"

text \<open>
  \<open>doc[key]\<close> in \<open>matchesSelector\<close>: reading a property of \<open>undefined\<close> or \<open>null\<close> raises a
  TypeError (\<open>None\<close>).
\<close>

fun js_index :: "json \<Rightarrow> string \<Rightarrow> json option" where
  "js_index JUndef k = None"
| "js_index JNull k = None"
| "js_index (JObj kvs) k = Some (obj_get kvs k)"
| "js_index _ k = Some JUndef"

text \<open>
  \<open>Array.prototype.every\<close> and \<open>some\<close> over callbacks that may raise: evaluation stops at
  the first element that decides the result or raises.
\<close>

fun every_sc :: "bool option list \<Rightarrow> bool option" where
  "every_sc [] = Some True"
| "every_sc (None # rs) = None"
| "every_sc (Some False # rs) = Some False"
| "every_sc (Some True # rs) = every_sc rs"

fun some_sc :: "bool option list \<Rightarrow> bool option" where
  "some_sc [] = Some False"
| "some_sc (None # rs) = None"
| "some_sc (Some True # rs) = Some True"
| "some_sc (Some False # rs) = some_sc rs"

text \<open>\<open>xs.includes(x)\<close>.\<close>

definition arr_includes :: "json \<Rightarrow> json list \<Rightarrow> bool" where
  "arr_includes x xs = list_ex (\<lambda>y. strict_eq y x) xs"

text \<open>
  The chain of operator tests on one entry of the selector. \<open>regex_test p s\<close> stands for
  \<open>new RegExp(p).test(s)\<close> of the JavaScript engine, \<open>None\<close> when the pattern is rejected.
  The outcome is \<open>Fail\<close> (\<open>return false\<close>), \<open>Pass\<close> (go on with the next entry), \<open>Raise\<close>
  or \<open>Nested\<close> (no operator applies: the value is matched as a nested selector).
\<close>

datatype verdict = Fail | Pass | Raise | Nested

definition matchOperator :: "(string \<Rightarrow> string \<Rightarrow> bool option) \<Rightarrow> json \<Rightarrow> obj \<Rightarrow> verdict" where
  "matchOperator regex_test docValue operatorValue =
    (let eq = obj_get operatorValue ''$eq''; ne = obj_get operatorValue ''$ne'';
         inn = obj_get operatorValue ''$in''; nin = obj_get operatorValue ''$nin'';
         gt = obj_get operatorValue ''$gt''; gte = obj_get operatorValue ''$gte'';
         lt = obj_get operatorValue ''$lt''; lte = obj_get operatorValue ''$lte'';
         regex = obj_get operatorValue ''$regex'' in
     if eq \<noteq> JUndef then (if \<not> strict_eq docValue eq then Fail else Pass)
     else if ne \<noteq> JUndef then (if strict_eq docValue ne then Fail else Pass)
     else if inn \<noteq> JUndef then
       (case inn of JArr xs \<Rightarrow> if \<not> arr_includes docValue xs then Fail else Pass | _ \<Rightarrow> Fail)
     else if nin \<noteq> JUndef then
       (case nin of JArr xs \<Rightarrow> if arr_includes docValue xs then Fail else Pass | _ \<Rightarrow> Pass)
     else if gt \<noteq> JUndef \<and> gt \<noteq> JNull then
       (case (docValue, gt) of
          (JNum d, JNum b) \<Rightarrow> if d \<le> b then Fail else Pass
        | (JStr d, JStr b) \<Rightarrow> if str_le d b then Fail else Pass
        | _ \<Rightarrow> Pass)
     else if gte \<noteq> JUndef \<and> gte \<noteq> JNull then
       (case (docValue, gte) of
          (JNum d, JNum b) \<Rightarrow> if d < b then Fail else Pass
        | (JStr d, JStr b) \<Rightarrow> if str_lt d b then Fail else Pass
        | _ \<Rightarrow> Pass)
     else if lt \<noteq> JUndef \<and> lt \<noteq> JNull then
       (case (docValue, lt) of
          (JNum d, JNum b) \<Rightarrow> if b \<le> d then Fail else Pass
        | (JStr d, JStr b) \<Rightarrow> if str_le b d then Fail else Pass
        | _ \<Rightarrow> Pass)
     else if lte \<noteq> JUndef \<and> lte \<noteq> JNull then
       (case (docValue, lte) of
          (JNum d, JNum b) \<Rightarrow> if b < d then Fail else Pass
        | (JStr d, JStr b) \<Rightarrow> if str_lt b d then Fail else Pass
        | _ \<Rightarrow> Pass)
     else if regex \<noteq> JUndef then
       (case regex_test (js_String regex) (js_String docValue) of
          None \<Rightarrow> Raise
        | Some b \<Rightarrow> if \<not> b then Fail else Pass)
     else Nested)"

text \<open>
  \<open>matchesSelector(doc, selector)\<close>, with \<open>None\<close> for a raised exception. A selector is an
  object (\<open>MangoSelector\<close>); \<open>Object.entries\<close> of a number/boolean is empty and of
  \<open>undefined\<close>/\<open>null\<close> raises. Strings and arrays in the place of a selector are outside the
  type and are treated as raising. A \<open>$and\<close> or \<open>$or\<close> entry returns at once: entries
  after it are not looked at.
\<close>

fun matchesSelector :: "(string \<Rightarrow> string \<Rightarrow> bool option) \<Rightarrow> json \<Rightarrow> json \<Rightarrow> bool option"
  and matchesEntries :: "(string \<Rightarrow> string \<Rightarrow> bool option) \<Rightarrow> json \<Rightarrow> obj \<Rightarrow> bool option"
where
  "matchesSelector regex_test doc (JObj kvs) = matchesEntries regex_test doc kvs"
| "matchesSelector regex_test doc (JNum _) = Some True"
| "matchesSelector regex_test doc (JBool _) = Some True"
| "matchesSelector regex_test doc _ = None"
| "matchesEntries regex_test doc [] = Some True"
| "matchesEntries regex_test doc ((key, v) # rest) =
     (if key = ''$and'' then
        (case v of JArr subs \<Rightarrow> every_sc (map (matchesSelector regex_test doc) subs)
                 | _ \<Rightarrow> Some False)
      else if key = ''$or'' then
        (case v of JArr subs \<Rightarrow> some_sc (map (matchesSelector regex_test doc) subs)
                 | _ \<Rightarrow> Some False)
      else
        (case js_index doc key of
           None \<Rightarrow> None
         | Some docValue \<Rightarrow>
            (case v of
               JObj operatorValue \<Rightarrow>
                 (case matchOperator regex_test docValue operatorValue of
                    Fail \<Rightarrow> Some False
                  | Raise \<Rightarrow> None
                  | Pass \<Rightarrow> matchesEntries regex_test doc rest
                  | Nested \<Rightarrow>
                      (case matchesSelector regex_test docValue (JObj operatorValue) of
                         None \<Rightarrow> None
                       | Some b \<Rightarrow> if \<not> b then Some False
                                  else matchesEntries regex_test doc rest))
             | _ \<Rightarrow> if \<not> strict_eq docValue v then Some False
                    else matchesEntries regex_test doc rest)))"

text \<open>A regex engine that rejects every pattern, for queries without \<open>$regex\<close>.\<close>

definition no_regex :: "string \<Rightarrow> string \<Rightarrow> bool option" where
  "no_regex p s = None"


section \<open>Escaping of the string operators\<close>

text \<open>
  A pattern is free of unescaped metacharacters when it reads as a sequence of plain
  characters and of pairs of a backslash and one further character.
\<close>

fun all_escaped :: "string \<Rightarrow> bool" where
  "all_escaped [] = True"
| "all_escaped (c # cs) =
     (if c = backslash then (case cs of [] \<Rightarrow> False | d # ds \<Rightarrow> all_escaped ds)
      else c \<notin> set metachars \<and> all_escaped cs)"

lemma backslash_meta: "backslash \<in> set metachars"
  by (simp add: metachars_def)

lemma all_escaped_escapeRegex: "all_escaped (escapeRegex v)"
  by (induction v) (auto simp: backslash_meta)

lemma escapeRegex_concat:
  "escapeRegex v =
     concat (map (\<lambda>c. if c \<in> set ''.*+?^${}()|[]'' \<or> c = CHR 0x5C then [CHR 0x5C, c] else [c]) v)"
  by (induction v) (auto simp: metachars_def backslash_def)

lemma convertOperator_nonempty: "convertOperator [] e \<noteq> []"
  by (simp add: convertOperator_def Let_def)

lemma convert_single_condition:
  assumes "f \<noteq> []" "f \<noteq> ''id''" "f \<noteq> ''AND''" "f \<noteq> ''OR''"
  shows "convertWhereToSelector (JArr [Where f operator v connector]) =
         JObj [(f, JObj (convertOperator [] (opKey (JStr operator), v)))]"
  using assms
  by (simp add: convertWhereToSelector.simps Where_def convertWhereArrayToRecord_def
      conditionObj_def closeOrGroup_def convertOperators_def convertOperator_nonempty)

text \<open>
  On every field that is not empty and is none of the reserved keys \<open>id\<close>, \<open>AND\<close>,
  \<open>OR\<close> the compiler does what claim C7 says: with the string \<open>v\<close> as value, the operators
  \<open>contains\<close>, \<open>starts_with\<close>/\<open>startsWith\<close> and \<open>ends_with\<close>/\<open>endsWith\<close> compile to the
  field mapped to \<open>$regex\<close> with the pattern \<open>.*esc(v).*\<close>, \<open>^esc(v).*\<close> and \<open>.*esc(v)$\<close>;
  \<open>esc(v)\<close> puts a backslash before each of the fourteen metacharacters of \<open>v\<close> and
  leaves the other characters alone, so it holds no unescaped metacharacter.
\<close>

theorem string_operators_compile_to_escaped_regex:
  assumes "f \<noteq> []" and "f \<noteq> ''id''" and "f \<noteq> ''AND''" and "f \<noteq> ''OR''"
  shows "convertWhereToSelector (JArr [Where f ''contains'' (JStr v) connector]) =
           JObj [(f, JObj [(''$regex'', JStr (''.*'' @ escapeRegex v @ ''.*''))])]
       \<and> convertWhereToSelector (JArr [Where f ''starts_with'' (JStr v) connector]) =
           JObj [(f, JObj [(''$regex'', JStr (''^'' @ escapeRegex v @ ''.*''))])]
       \<and> convertWhereToSelector (JArr [Where f ''startsWith'' (JStr v) connector]) =
           JObj [(f, JObj [(''$regex'', JStr (''^'' @ escapeRegex v @ ''.*''))])]
       \<and> convertWhereToSelector (JArr [Where f ''ends_with'' (JStr v) connector]) =
           JObj [(f, JObj [(''$regex'', JStr (''.*'' @ escapeRegex v @ ''$''))])]
       \<and> convertWhereToSelector (JArr [Where f ''endsWith'' (JStr v) connector]) =
           JObj [(f, JObj [(''$regex'', JStr (''.*'' @ escapeRegex v @ ''$''))])]
       \<and> escapeRegex v =
           concat (map (\<lambda>c. if c \<in> set ''.*+?^${}()|[]'' \<or> c = CHR 0x5C
                             then [CHR 0x5C, c] else [c]) v)
       \<and> all_escaped (escapeRegex v)"
proof -
  have "convertWhereToSelector (JArr [Where f ''contains'' (JStr v) connector]) =
           JObj [(f, JObj [(''$regex'', JStr (''.*'' @ escapeRegex v @ ''.*''))])]"
    using assms by (simp add: convert_single_condition opKey_def convertOperator_def)
  moreover have "convertWhereToSelector (JArr [Where f ''starts_with'' (JStr v) connector]) =
           JObj [(f, JObj [(''$regex'', JStr (''^'' @ escapeRegex v @ ''.*''))])]"
    using assms by (simp add: convert_single_condition opKey_def convertOperator_def)
  moreover have "convertWhereToSelector (JArr [Where f ''startsWith'' (JStr v) connector]) =
           JObj [(f, JObj [(''$regex'', JStr (''^'' @ escapeRegex v @ ''.*''))])]"
    using assms by (simp add: convert_single_condition opKey_def convertOperator_def)
  moreover have "convertWhereToSelector (JArr [Where f ''ends_with'' (JStr v) connector]) =
           JObj [(f, JObj [(''$regex'', JStr (''.*'' @ escapeRegex v @ ''$''))])]"
    using assms by (simp add: convert_single_condition opKey_def convertOperator_def)
  moreover have "convertWhereToSelector (JArr [Where f ''endsWith'' (JStr v) connector]) =
           JObj [(f, JObj [(''$regex'', JStr (''.*'' @ escapeRegex v @ ''$''))])]"
    using assms by (simp add: convert_single_condition opKey_def convertOperator_def)
  ultimately show ?thesis
    using escapeRegex_concat[of v] all_escaped_escapeRegex[of v] by blast
qed

text \<open>
  At the field \<open>email\<close> and the value \<open>a.b*\<close>: the dot and the star arrive escaped in
  each of the three patterns.
\<close>

theorem string_operators_compile_to_escaped_regex_witness:
  "convertWhereToSelector (JArr [Where ''email'' ''contains'' (JStr ''a.b*'') ''AND'']) =
     JObj [(''email'', JObj [(''$regex'', JStr (''.*a'' @ [CHR 0x5C] @ ''.b'' @ [CHR 0x5C] @ ''*.*''))])]
   \<and> convertWhereToSelector (JArr [Where ''email'' ''starts_with'' (JStr ''a.b*'') ''AND'']) =
     JObj [(''email'', JObj [(''$regex'', JStr (''^a'' @ [CHR 0x5C] @ ''.b'' @ [CHR 0x5C] @ ''*.*''))])]
   \<and> convertWhereToSelector (JArr [Where ''email'' ''ends_with'' (JStr ''a.b*'') ''AND'']) =
     JObj [(''email'', JObj [(''$regex'', JStr (''.*a'' @ [CHR 0x5C] @ ''.b'' @ [CHR 0x5C] @ ''*$''))])]
   \<and> all_escaped (''a'' @ [CHR 0x5C] @ ''.b'' @ [CHR 0x5C] @ ''*'')"
  using string_operators_compile_to_escaped_regex[of "''email''" "''a.b*''" "''AND''"]
  by (simp add: metachars_def backslash_def)

text \<open>
  Claim C7 fails on the code for a condition on the field \<open>id\<close>. The \<open>key === "id"\<close>
  branch of \<open>convertWhereToSelector\<close> comes before the operator branch and stores the
  operator object as it is under \<open>_id\<close>: for \<open>contains\<close> with the value \<open>a.b\<close> the
  selector is \<open>{ _id: { contains: "a.b" } }\<close>, with no \<open>$regex\<close> and no escaping. The same
  condition written on the field \<open>_id\<close> goes through the operator branch and is compiled
  to the escaped pattern.
\<close>

theorem id_field_contains_not_compiled:
  "convertWhereToSelector (JArr [Where ''id'' ''contains'' (JStr ''a.b'') ''AND'']) =
     JObj [(''_id'', JObj [(''contains'', JStr ''a.b'')])]
   \<and> convertWhereToSelector (JArr [Where ''id'' ''contains'' (JStr ''a.b'') ''AND'']) \<noteq>
     JObj [(''_id'', JObj [(''$regex'', JStr (''.*'' @ escapeRegex ''a.b'' @ ''.*''))])]
   \<and> convertWhereToSelector (JArr [Where ''_id'' ''contains'' (JStr ''a.b'') ''AND'']) =
     JObj [(''_id'', JObj [(''$regex'', JStr (''.*a'' @ [CHR 0x5C] @ ''.b.*''))])]"
proof -
  have "convertWhereToSelector (JArr [Where ''id'' ''contains'' (JStr ''a.b'') ''AND'']) =
          JObj [(''_id'', JObj [(''contains'', JStr ''a.b'')])]"
    by (simp add: convertWhereToSelector.simps Where_def convertWhereArrayToRecord_def
        conditionObj_def opKey_def closeOrGroup_def)
  moreover have
    "convertWhereToSelector (JArr [Where ''_id'' ''contains'' (JStr ''a.b'') ''AND'']) =
       JObj [(''_id'', JObj [(''$regex'', JStr (''.*a'' @ [CHR 0x5C] @ ''.b.*''))])]"
    using string_operators_compile_to_escaped_regex[of "''_id''" "''a.b''" "''AND''"]
    by (simp add: metachars_def backslash_def)
  ultimately show ?thesis by simp
qed

section \<open>Connector semantics of a condition sequence\<close>

text \<open>A condition joins the OR group when its connector is \<open>OR\<close>.\<close>

definition isOR :: "json \<Rightarrow> bool" where
  "isOR c = (js_prop c ''connector'' = JStr ''OR'')"


text \<open>A document satisfies a condition when it matches that condition compiled alone.\<close>

definition condition_holds :: "(string \<Rightarrow> string \<Rightarrow> bool option) \<Rightarrow> json \<Rightarrow> json \<Rightarrow> bool" where
  "condition_holds regex_test doc c =
     (matchesSelector regex_test doc (convertWhereToSelector (conditionObj c)) = Some True)"























lemmas eval_where_defs = convertWhereToSelector.simps Where_def convertWhereArrayToRecord_def
      conditionObj_def opKey_def closeOrGroup_def convertOperators_def convertOperator_def
      matchOperator_def no_regex_def isOR_def condition_holds_def



section \<open>Errors, the store interface and the host framework\<close>

text \<open>
  A thrown value, as far as the adapter looks at it: \<open>error.statusCode\<close>, \<open>error.error\<close>
  and the message.
\<close>

record js_error =
  statusCode :: "int option"
  errorTag :: "string option"
  message :: string

text \<open>\<open>new Error(msg)\<close>: an error without a status code.\<close>

definition Error :: "string \<Rightarrow> js_error" where
  "Error msg = \<lparr>statusCode = None, errorTag = None, message = msg\<rparr>"

text \<open>
  An asynchronous call on the store: it takes the state of the world, and returns the value
  or the thrown error together with the new state.
\<close>

type_synonym ('a, 's) io = "'s \<Rightarrow> (js_error + 'a) \<times> 's"

definition io_return :: "'a \<Rightarrow> ('a, 's) io" where
  "io_return a s = (Inr a, s)"

definition io_throw :: "js_error \<Rightarrow> ('a, 's) io" where
  "io_throw e s = (Inl e, s)"

definition io_bind :: "('a, 's) io \<Rightarrow> ('a \<Rightarrow> ('b, 's) io) \<Rightarrow> ('b, 's) io" where
  "io_bind m f s = (case m s of (Inl e, s') \<Rightarrow> (Inl e, s') | (Inr a, s') \<Rightarrow> f a s')"

text \<open>\<open>try { m } catch (error) { h(error) }\<close>.\<close>

definition io_catch :: "('a, 's) io \<Rightarrow> (js_error \<Rightarrow> ('a, 's) io) \<Rightarrow> ('a, 's) io" where
  "io_catch m h s = (case m s of (Inl e, s') \<Rightarrow> h e s' | (Inr a, s') \<Rightarrow> (Inr a, s'))"

record insert_response =
  resp_id :: string
  resp_rev :: string

record query =
  q_selector :: obj
  q_limit :: "int option"
  q_skip :: "int option"
  q_sort :: "(string \<times> string) list option"
  q_bookmark :: "string option"

record find_result =
  fr_docs :: "obj list"
  fr_bookmark :: "string option"

text \<open>
  The store as the adapter reaches it through \<open>nano\<close>: \<open>couch.db.get\<close>, \<open>couch.db.create\<close>
  and, for the database \<open>couch.use(name)\<close>, \<open>insert\<close>, \<open>get\<close>, \<open>destroy\<close> and \<open>find\<close>. The
  store is outside the repository: it is a parameter, any behaviour of it (other writers
  included) is some such functions on some state.
\<close>

record 's couch =
  srv_db_get :: "string \<Rightarrow> (unit, 's) io"
  srv_db_create :: "string \<Rightarrow> (unit, 's) io"
  db_insert :: "string \<Rightarrow> obj \<Rightarrow> (insert_response, 's) io"
  db_get :: "string \<Rightarrow> json \<Rightarrow> (obj, 's) io"
  db_destroy :: "string \<Rightarrow> json \<Rightarrow> json \<Rightarrow> (unit, 's) io"
  db_find :: "string \<Rightarrow> query \<Rightarrow> (find_result, 's) io"

text \<open>
  What \<open>createAdapterFactory\<close> of the host framework hands to the adapter. These functions
  are outside the repository and are parameters; they are taken to return without raising.
\<close>

record host =
  getModelName :: "string \<Rightarrow> string"
  getDefaultModelName :: "string \<Rightarrow> string"
  getFieldName :: "string \<Rightarrow> string \<Rightarrow> string"
  transformInput :: "obj \<Rightarrow> string \<Rightarrow> string \<Rightarrow> obj"
  transformOutput :: "obj \<Rightarrow> string \<Rightarrow> obj"
  transformWhereClause :: "json \<Rightarrow> string \<Rightarrow> json"

text \<open>
  What the JavaScript engine provides to the in-memory sorts: \<open>Array.prototype.sort\<close> with a
  comparator, and the comparison \<open>x < y\<close> of two values (\<open>x > y\<close> is \<open>y < x\<close>). ECMAScript
  fixes the result of the sort only for a consistent comparator and leaves it to the engine
  otherwise, so the sort is a parameter.
\<close>

record engine =
  array_sort :: "(obj \<Rightarrow> obj \<Rightarrow> int) \<Rightarrow> obj list \<Rightarrow> obj list"
  less_than :: "json \<Rightarrow> json \<Rightarrow> bool"

record config =
  database :: "string option"
  useModelAsDatabase :: bool

section \<open>Storage Resolver and Document Codec\<close>

definition getDatabase :: "'s couch \<Rightarrow> string \<Rightarrow> config \<Rightarrow> (string, 's) io" where
  "getDatabase couch model cfg =
     (let dbName =
        (if useModelAsDatabase cfg then model
         else (case database cfg of
                 Some d \<Rightarrow> if d \<noteq> [] then d else ''better_auth''
               | None \<Rightarrow> ''better_auth''))
      in io_bind
           (io_catch (srv_db_get couch dbName)
              (\<lambda>error. if statusCode error = Some 404 then srv_db_create couch dbName
                        else io_throw error))
           (\<lambda>_. io_return (if useModelAsDatabase cfg then model else dbName)))"

definition cleanDocumentForTransform :: "obj \<Rightarrow> obj" where
  "cleanDocumentForTransform doc =
     (let cleaned = obj_del ''betterAuthModel'' (obj_del ''_rev'' doc) in
      if truthy (obj_get cleaned ''_id'') then obj_set ''id'' (obj_get cleaned ''_id'') cleaned
      else cleaned)"

definition mergeOriginalFields :: "obj \<Rightarrow> obj \<Rightarrow> obj" where
  "mergeOriginalFields transformed original =
     foldl
       (\<lambda>result kv.
          if fst kv \<noteq> ''_id'' \<and> fst kv \<noteq> ''_rev'' \<and> fst kv \<noteq> ''betterAuthModel'' \<and> fst kv \<noteq> ''id''
             \<and> (fst kv \<notin> fst ` set result \<or> obj_get result (fst kv) = JUndef)
          then obj_set (fst kv) (obj_get original (fst kv)) result
          else result)
       transformed original"

text \<open>
  The sequence \<open>cleanDocumentForTransform\<close>, \<open>transformOutput\<close>, \<open>mergeOriginalFields\<close>
  that every operation applies to a document before returning it.
\<close>

definition decodeDocument :: "host \<Rightarrow> string \<Rightarrow> obj \<Rightarrow> obj" where
  "decodeDocument h model doc =
     (let cleaned = cleanDocumentForTransform doc;
          transformed = transformOutput h cleaned (getDefaultModelName h model)
      in mergeOriginalFields transformed cleaned)"

text \<open>\<open>a ?? b\<close> and \<open>a || b\<close>.\<close>

definition nullish :: "json \<Rightarrow> json \<Rightarrow> json" where
  "nullish a b = (if a = JUndef \<or> a = JNull then b else a)"

definition js_or :: "json \<Rightarrow> json \<Rightarrow> json" where
  "js_or a b = (if truthy a then a else b)"

text \<open>The selector object of a compiled where clause, and \<open>selector.betterAuthModel = name\<close>
  under the shared-store topology.\<close>

definition selector_entries :: "json \<Rightarrow> obj" where
  "selector_entries sel = (case sel of JObj kvs \<Rightarrow> kvs | _ \<Rightarrow> [])"

definition withModelFilter :: "host \<Rightarrow> config \<Rightarrow> string \<Rightarrow> obj \<Rightarrow> obj" where
  "withModelFilter h cfg model selector =
     (if \<not> useModelAsDatabase cfg
      then obj_set ''betterAuthModel'' (JStr (getModelName h model)) selector
      else selector)"

text \<open>The discriminator check of \<open>update\<close>, \<open>delete\<close> and \<open>findOne\<close>:
  \<open>!config.useModelAsDatabase && doc.betterAuthModel && doc.betterAuthModel !== getModelName(model)\<close>.\<close>

definition modelMismatch :: "host \<Rightarrow> config \<Rightarrow> string \<Rightarrow> obj \<Rightarrow> bool" where
  "modelMismatch h cfg model doc =
     (\<not> useModelAsDatabase cfg \<and> truthy (obj_get doc ''betterAuthModel'')
      \<and> obj_get doc ''betterAuthModel'' \<noteq> JStr (getModelName h model))"

section \<open>CRUD Executor\<close>

subsection \<open>create\<close>

text \<open>\<open>transformedData\<close> of \<open>create\<close>: the document handed to \<open>db.insert\<close>.\<close>

definition create_transformedData :: "host \<Rightarrow> config \<Rightarrow> string \<Rightarrow> obj \<Rightarrow> obj" where
  "create_transformedData h cfg model data =
     (let baseTransformed = transformInput h data (getDefaultModelName h model) ''create'';
          transformedData = obj_spread data baseTransformed;
          transformedData =
            (if \<not> truthy (obj_get transformedData ''_id'') \<and> truthy (obj_get transformedData ''id'')
             then obj_set ''_id'' (obj_get transformedData ''id'') transformedData
             else transformedData)
      in if \<not> useModelAsDatabase cfg
         then obj_set ''betterAuthModel'' (JStr (getModelName h model)) transformedData
         else transformedData)"

text \<open>\<open>insert\<close>, then \<open>get\<close> of the inserted identifier, then decode.\<close>

definition insertAndFetch :: "host \<Rightarrow> 's couch \<Rightarrow> string \<Rightarrow> string \<Rightarrow> obj \<Rightarrow> (obj, 's) io" where
  "insertAndFetch h couch db model doc =
     io_bind (db_insert couch db doc) (\<lambda>response.
     io_bind (db_get couch db (JStr (resp_id response))) (\<lambda>fullDoc.
     io_return (decodeDocument h model fullDoc)))"

text \<open>The conflict branch of \<open>create\<close>: fetch, destroy, insert again, fetch, decode.\<close>

definition create_retry :: "host \<Rightarrow> 's couch \<Rightarrow> string \<Rightarrow> string \<Rightarrow> obj \<Rightarrow> (obj, 's) io" where
  "create_retry h couch db model transformedData =
     io_bind (db_get couch db (obj_get transformedData ''_id'')) (\<lambda>existing.
     io_bind (db_destroy couch db (obj_get transformedData ''_id'')
                (js_or (obj_get existing ''_rev'') (JStr []))) (\<lambda>_.
     insertAndFetch h couch db model transformedData))"

definition create :: "host \<Rightarrow> config \<Rightarrow> 's couch \<Rightarrow> string \<Rightarrow> obj \<Rightarrow> (obj, 's) io" where
  "create h cfg couch model data =
     io_bind (getDatabase couch (getModelName h model) cfg) (\<lambda>db.
       let transformedData = create_transformedData h cfg model data in
       io_catch (insertAndFetch h couch db model transformedData)
         (\<lambda>error.
            if statusCode error = Some 409 \<and> truthy (obj_get transformedData ''_id'')
            then io_catch (create_retry h couch db model transformedData)
                   (\<lambda>retryError. io_throw retryError)
            else io_throw error))"

subsection \<open>Resolving the document identifier of \<open>update\<close> and \<open>delete\<close>\<close>

text \<open>\<open>typeof idVal === 'object' && idVal !== null
  ? String(idVal.equals ?? idVal.$eq ?? idVal) : String(idVal)\<close>.\<close>

definition idString :: "json \<Rightarrow> string" where
  "idString idVal =
     (case idVal of
        JObj _ \<Rightarrow> js_String (nullish (nullish (js_prop idVal ''equals'') (js_prop idVal ''$eq'')) idVal)
      | JArr _ \<Rightarrow> js_String (nullish (nullish (js_prop idVal ''equals'') (js_prop idVal ''$eq'')) idVal)
      | _ \<Rightarrow> js_String idVal)"

text \<open>\<open>const whereRecord = Array.isArray(transformedWhere)
  ? convertWhereArrayToRecord(transformedWhere) : transformedWhere\<close>; \<open>JNull\<close> is \<open>null\<close>.\<close>

definition whereRecordOf :: "json \<Rightarrow> json" where
  "whereRecordOf transformedWhere =
     (case transformedWhere of
        JArr _ \<Rightarrow> (case convertWhereArrayToRecord transformedWhere of
                     Some r \<Rightarrow> r | None \<Rightarrow> JNull)
      | _ \<Rightarrow> transformedWhere)"

text \<open>
  \<open>docId\<close> after the two looks at the where clause (the identical code of \<open>update\<close> and
  \<open>delete\<close>): first an \<open>id\<close>/\<open>_id\<close> condition of the array, then \<open>whereRecord.id\<close> and
  \<open>whereRecord._id\<close>. \<open>JUndef\<close> is \<open>undefined\<close>.
\<close>

definition whereDocId :: "json \<Rightarrow> json" where
  "whereDocId transformedWhere =
     (let docId =
        (case transformedWhere of
           JArr cs \<Rightarrow>
             (case find (\<lambda>c. js_prop c ''field'' = JStr ''id'' \<or> js_prop c ''field'' = JStr ''_id'') cs of
                Some idCondition \<Rightarrow>
                  if truthy (js_prop idCondition ''value'')
                  then JStr (js_String (js_prop idCondition ''value'')) else JUndef
              | None \<Rightarrow> JUndef)
         | _ \<Rightarrow> JUndef)
      in if \<not> truthy docId then
           (let whereRecord = whereRecordOf transformedWhere
            in if truthy (js_prop whereRecord ''id'') then JStr (idString (js_prop whereRecord ''id''))
               else if truthy (js_prop whereRecord ''_id'') then JStr (idString (js_prop whereRecord ''_id''))
               else docId)
         else docId)"

text \<open>The query \<open>{ selector, limit: 1 }\<close> that resolves the identifier by \<open>find\<close>.\<close>

definition resolveQuery :: "host \<Rightarrow> config \<Rightarrow> string \<Rightarrow> json \<Rightarrow> query" where
  "resolveQuery h cfg model transformedWhere =
     \<lparr>q_selector = withModelFilter h cfg model
                     (selector_entries (convertWhereToSelector transformedWhere)),
      q_limit = Some 1, q_skip = None, q_sort = None, q_bookmark = None\<rparr>"

subsection \<open>update\<close>

definition update_resolveDocId ::
  "host \<Rightarrow> config \<Rightarrow> 's couch \<Rightarrow> string \<Rightarrow> string \<Rightarrow> json \<Rightarrow> (json, 's) io" where
  "update_resolveDocId h cfg couch db model transformedWhere =
     (let docId = whereDocId transformedWhere in
      if \<not> truthy docId then
        io_bind (db_find couch db (resolveQuery h cfg model transformedWhere)) (\<lambda>result.
          if length (fr_docs result) = 0
          then io_throw (Error (''Document not found for update in model '' @ model))
          else io_return (obj_get (hd (fr_docs result)) ''_id''))
      else io_return docId)"

text \<open>\<open>{ ...existing, ...transformedData, _id: existing._id, _rev: existing._rev }\<close>.\<close>

definition mergeUpdate :: "obj \<Rightarrow> obj \<Rightarrow> obj" where
  "mergeUpdate existing transformedData =
     obj_set ''_rev'' (obj_get existing ''_rev'')
       (obj_set ''_id'' (obj_get existing ''_id'') (obj_spread existing transformedData))"

text \<open>The \<open>try\<close> block of \<open>update\<close>.\<close>

definition update_attempt ::
  "host \<Rightarrow> config \<Rightarrow> 's couch \<Rightarrow> string \<Rightarrow> string \<Rightarrow> obj \<Rightarrow> json \<Rightarrow> (obj, 's) io" where
  "update_attempt h cfg couch db model transformedData docId =
     io_bind (db_get couch db docId) (\<lambda>existing.
       if modelMismatch h cfg model existing
       then io_throw (Error (''Document not found for update in model '' @ model))
       else insertAndFetch h couch db model (mergeUpdate existing transformedData))"

text \<open>The conflict branch of its \<open>catch\<close>: the single retry.\<close>

definition update_retry ::
  "host \<Rightarrow> 's couch \<Rightarrow> string \<Rightarrow> string \<Rightarrow> obj \<Rightarrow> json \<Rightarrow> (obj, 's) io" where
  "update_retry h couch db model transformedData docId =
     io_bind (db_get couch db docId) (\<lambda>existing.
       insertAndFetch h couch db model (mergeUpdate existing transformedData))"

definition update ::
  "host \<Rightarrow> config \<Rightarrow> 's couch \<Rightarrow> string \<Rightarrow> json \<Rightarrow> obj \<Rightarrow> (obj, 's) io" where
  "update h cfg couch model whr data =
     io_bind (getDatabase couch (getModelName h model) cfg) (\<lambda>db.
       let transformedWhere = transformWhereClause h whr (getDefaultModelName h model);
           transformedData = transformInput h data (getDefaultModelName h model) ''update''
       in io_bind (update_resolveDocId h cfg couch db model transformedWhere) (\<lambda>docId.
            io_catch (update_attempt h cfg couch db model transformedData docId)
              (\<lambda>error.
                 if statusCode error = Some 404
                 then io_throw (Error (''Document not found: '' @ js_String docId))
                 else if statusCode error = Some 409
                 then update_retry h couch db model transformedData docId
                 else io_throw error)))"

subsection \<open>updateMany\<close>

text \<open>The \<open>for\<close> loop over the found documents, with the running \<open>updatedCount\<close>.\<close>

fun updateMany_loop :: "'s couch \<Rightarrow> string \<Rightarrow> obj \<Rightarrow> obj list \<Rightarrow> nat \<Rightarrow> (nat, 's) io" where
  "updateMany_loop couch db transformedData [] updatedCount = io_return updatedCount"
| "updateMany_loop couch db transformedData (couchDoc # docs) updatedCount =
     (\<lambda>s. case db_insert couch db (mergeUpdate couchDoc transformedData) s of
             (Inr _, s') \<Rightarrow> updateMany_loop couch db transformedData docs (updatedCount + 1) s'
           | (Inl error, s') \<Rightarrow>
               if statusCode error \<noteq> Some 409 then (Inl error, s')
               else updateMany_loop couch db transformedData docs updatedCount s')"

definition manyQuery :: "host \<Rightarrow> config \<Rightarrow> string \<Rightarrow> json \<Rightarrow> query" where
  "manyQuery h cfg model transformedWhere =
     \<lparr>q_selector = withModelFilter h cfg model
                     (selector_entries (convertWhereToSelector transformedWhere)),
      q_limit = None, q_skip = None, q_sort = None, q_bookmark = None\<rparr>"

definition updateMany ::
  "host \<Rightarrow> config \<Rightarrow> 's couch \<Rightarrow> string \<Rightarrow> json \<Rightarrow> obj option \<Rightarrow> (nat, 's) io" where
  "updateMany h cfg couch model whr data =
     io_bind (getDatabase couch (getModelName h model) cfg) (\<lambda>db.
       let transformedWhere = transformWhereClause h whr (getDefaultModelName h model) in
       case data of
         None \<Rightarrow> io_throw (Error ''updateMany requires data or update parameter'')
       | Some d \<Rightarrow>
           (let transformedData = transformInput h d (getDefaultModelName h model) ''update'' in
            io_bind (db_find couch db (manyQuery h cfg model transformedWhere)) (\<lambda>result.
              updateMany_loop couch db transformedData (fr_docs result) 0)))"

subsection \<open>delete and deleteMany\<close>

text \<open>The result is \<open>None\<close> when the \<open>find\<close> matched nothing (\<open>delete\<close> then returns).\<close>

definition delete_resolveDocId ::
  "host \<Rightarrow> config \<Rightarrow> 's couch \<Rightarrow> string \<Rightarrow> string \<Rightarrow> json \<Rightarrow> (json option, 's) io" where
  "delete_resolveDocId h cfg couch db model transformedWhere =
     (let docId = whereDocId transformedWhere in
      if \<not> truthy docId then
        io_bind (db_find couch db (resolveQuery h cfg model transformedWhere)) (\<lambda>result.
          if length (fr_docs result) = 0 then io_return None
          else io_return (Some (obj_get (hd (fr_docs result)) ''_id'')))
      else io_return (Some docId))"

text \<open>The \<open>try\<close> block of \<open>delete\<close>.\<close>

definition delete_attempt ::
  "host \<Rightarrow> config \<Rightarrow> 's couch \<Rightarrow> string \<Rightarrow> string \<Rightarrow> json \<Rightarrow> (unit, 's) io" where
  "delete_attempt h cfg couch db model docId =
     (if \<not> truthy docId then io_return ()
      else io_bind (db_get couch db docId) (\<lambda>doc.
             if modelMismatch h cfg model doc then io_return ()
             else db_destroy couch db (obj_get doc ''_id'')
                    (js_or (obj_get doc ''_rev'') (JStr []))))"

definition delete :: "host \<Rightarrow> config \<Rightarrow> 's couch \<Rightarrow> string \<Rightarrow> json \<Rightarrow> (unit, 's) io" where
  "delete h cfg couch model whr =
     io_bind (getDatabase couch (getModelName h model) cfg) (\<lambda>db.
       let transformedWhere = transformWhereClause h whr (getDefaultModelName h model) in
       io_bind (delete_resolveDocId h cfg couch db model transformedWhere) (\<lambda>resolved.
         case resolved of
           None \<Rightarrow> io_return ()
         | Some docId \<Rightarrow>
             io_catch (delete_attempt h cfg couch db model docId)
               (\<lambda>error. if statusCode error = Some 404 then io_return () else io_throw error)))"

fun deleteMany_loop :: "'s couch \<Rightarrow> string \<Rightarrow> obj list \<Rightarrow> nat \<Rightarrow> (nat, 's) io" where
  "deleteMany_loop couch db [] deletedCount = io_return deletedCount"
| "deleteMany_loop couch db (couchDoc # docs) deletedCount =
     (\<lambda>s. case db_destroy couch db (obj_get couchDoc ''_id'')
                 (js_or (obj_get couchDoc ''_rev'') (JStr [])) s of
             (Inr _, s') \<Rightarrow> deleteMany_loop couch db docs (deletedCount + 1) s'
           | (Inl error, s') \<Rightarrow>
               if statusCode error \<noteq> Some 404 then (Inl error, s')
               else deleteMany_loop couch db docs deletedCount s')"

definition deleteMany :: "host \<Rightarrow> config \<Rightarrow> 's couch \<Rightarrow> string \<Rightarrow> json \<Rightarrow> (nat, 's) io" where
  "deleteMany h cfg couch model whr =
     io_bind (getDatabase couch (getModelName h model) cfg) (\<lambda>db.
       let transformedWhere = transformWhereClause h whr (getDefaultModelName h model) in
       io_bind (db_find couch db (manyQuery h cfg model transformedWhere)) (\<lambda>result.
         deleteMany_loop couch db (fr_docs result) 0))"

subsection \<open>findOne\<close>

text \<open>The \<open>try\<close> block of \<open>findOne\<close>; \<open>None\<close> is \<open>null\<close>.\<close>

definition findOne_attempt ::
  "host \<Rightarrow> config \<Rightarrow> 's couch \<Rightarrow> string \<Rightarrow> string \<Rightarrow> json \<Rightarrow> (obj option, 's) io" where
  "findOne_attempt h cfg couch db model transformedWhere =
     (let whereRecord = whereRecordOf transformedWhere
      in if truthy (js_prop whereRecord ''id'') then
           (let docId = JStr (js_String (js_prop whereRecord ''id'')) in
            io_bind (db_get couch db docId) (\<lambda>doc.
              if modelMismatch h cfg model doc then io_return None
              else io_return (Some (decodeDocument h model doc))))
         else
           io_bind (db_find couch db (resolveQuery h cfg model transformedWhere)) (\<lambda>result.
             if length (fr_docs result) = 0 then io_return None
             else io_return (Some (decodeDocument h model (hd (fr_docs result))))))"

definition findOne :: "host \<Rightarrow> config \<Rightarrow> 's couch \<Rightarrow> string \<Rightarrow> json \<Rightarrow> (obj option, 's) io" where
  "findOne h cfg couch model whr =
     io_bind (getDatabase couch (getModelName h model) cfg) (\<lambda>db.
       let transformedWhere = transformWhereClause h whr (getDefaultModelName h model) in
       io_catch (findOne_attempt h cfg couch db model transformedWhere)
         (\<lambda>error. if statusCode error = Some 404 then io_return None else io_throw error))"

subsection \<open>findMany\<close>

text \<open>The comparator handed to \<open>result.docs.sort\<close>.\<close>

fun compareDocs :: "engine \<Rightarrow> host \<Rightarrow> string \<Rightarrow> (string \<times> string) list \<Rightarrow> obj \<Rightarrow> obj \<Rightarrow> int" where
  "compareDocs eng h model [] a b = 0"
| "compareDocs eng h model (order # orderBy) a b =
     (let field = getFieldName h model (fst order);
          aVal = obj_get a field;
          bVal = obj_get b field;
          comparison =
            (if aVal = JUndef \<or> aVal = JNull then 1
             else if bVal = JUndef \<or> bVal = JNull then - 1
             else if less_than eng aVal bVal then - 1
             else if less_than eng bVal aVal then 1
             else (0::int))
      in if comparison \<noteq> 0
         then (if snd order = ''desc'' then - comparison else comparison)
         else compareDocs eng h model orderBy a b)"

text \<open>The selector of \<open>findMany\<close> with the discriminator added.\<close>

definition findMany_selector :: "host \<Rightarrow> config \<Rightarrow> string \<Rightarrow> json \<Rightarrow> obj" where
  "findMany_selector h cfg model transformedWhere =
     (let selector = selector_entries (convertWhereToSelector transformedWhere) in
      if \<not> useModelAsDatabase cfg then
        (case obj_get selector ''$and'' of
           JArr sub \<Rightarrow>
             obj_set ''$and''
               (JArr (sub @ [JObj [(''betterAuthModel'', JStr (getModelName h model))]])) selector
         | _ \<Rightarrow>
             if length selector > 0
             then [(''$and'', JArr [JObj selector,
                                   JObj [(''betterAuthModel'', JStr (getModelName h model))]])]
             else obj_set ''betterAuthModel'' (JStr (getModelName h model)) selector)
      else selector)"

definition findMany_query ::
  "host \<Rightarrow> config \<Rightarrow> string \<Rightarrow> json \<Rightarrow> int option \<Rightarrow> int option \<Rightarrow>
   (string \<times> string) list option \<Rightarrow> query" where
  "findMany_query h cfg model transformedWhere limit offset orderBy =
     \<lparr>q_selector = findMany_selector h cfg model transformedWhere,
      q_limit = limit,
      q_skip = offset,
      q_sort =
        (case orderBy of
           Some ob \<Rightarrow>
             if length ob > 0
             then Some (map (\<lambda>order. (getFieldName h model (fst order),
                                       if snd order = ''desc'' then ''desc'' else ''asc'')) ob)
             else None
         | None \<Rightarrow> None),
      q_bookmark = None\<rparr>"

text \<open>
  The inner \<open>try\<close>/\<open>catch\<close> around \<open>db.find(query)\<close>: the result together with
  \<open>needsInMemorySort\<close> and \<open>needsInMemoryOffset\<close>.
\<close>

definition findMany_fetch ::
  "'s couch \<Rightarrow> string \<Rightarrow> query \<Rightarrow> (find_result \<times> bool \<times> bool, 's) io" where
  "findMany_fetch couch db query =
     io_catch (io_bind (db_find couch db query) (\<lambda>result. io_return (result, False, False)))
       (\<lambda>error.
          if statusCode error = Some 400 \<and> errorTag error = Some ''no_usable_index''
          then io_bind (db_find couch db (query\<lparr>q_sort := None, q_skip := None\<rparr>))
                 (\<lambda>result. io_return
                    (result,
                     q_sort query \<noteq> None,
                     (case q_skip query of Some k \<Rightarrow> k \<noteq> 0 | None \<Rightarrow> False)))
          else io_throw error)"

definition findMany ::
  "engine \<Rightarrow> host \<Rightarrow> config \<Rightarrow> 's couch \<Rightarrow> string \<Rightarrow> json \<Rightarrow> int option \<Rightarrow> int option \<Rightarrow>
   (string \<times> string) list option \<Rightarrow> (string \<times> string) option \<Rightarrow> (obj list, 's) io" where
  "findMany eng h cfg couch model whr limit offset orderByArg sortBy =
     (let orderBy =
        (case orderByArg of
           Some ob \<Rightarrow> Some ob
         | None \<Rightarrow> (case sortBy of Some sb \<Rightarrow> Some [sb] | None \<Rightarrow> None))
      in io_bind (getDatabase couch (getModelName h model) cfg) (\<lambda>db.
        let transformedWhere = transformWhereClause h whr (getDefaultModelName h model);
            query = findMany_query h cfg model transformedWhere limit offset orderBy
        in io_bind (findMany_fetch couch db query) (\<lambda>(result, needsInMemorySort, needsInMemoryOffset).
             let docs =
                   (case orderBy of
                      Some ob \<Rightarrow>
                        if needsInMemorySort \<and> length ob > 0
                        then array_sort eng (compareDocs eng h model ob) (fr_docs result)
                        else fr_docs result
                    | None \<Rightarrow> fr_docs result);
                 docs =
                   (case offset of
                      Some k \<Rightarrow> if needsInMemoryOffset \<and> k > 0 then drop (nat k) docs else docs
                    | None \<Rightarrow> docs)
             in io_return (map (decodeDocument h model) docs))))"

subsection \<open>count\<close>

text \<open>
  The \<open>while (true)\<close> loop of \<open>count\<close>. Whether it ends depends on the store, so the loop
  is a partial function: \<open>None\<close> is a loop that never returns.
\<close>

definition count_query :: "obj \<Rightarrow> string option \<Rightarrow> query" where
  "count_query selector bookmark =
     \<lparr>q_selector = selector, q_limit = Some 1000, q_skip = None, q_sort = None,
      q_bookmark = (case bookmark of Some b \<Rightarrow> if b \<noteq> [] then Some b else None | None \<Rightarrow> None)\<rparr>"

partial_function (option) count_loop ::
  "'s couch \<Rightarrow> string \<Rightarrow> obj \<Rightarrow> nat \<Rightarrow> string option \<Rightarrow> 's \<Rightarrow> ((js_error + nat) \<times> 's) option" where
  "count_loop couch db selector totalSoFar bookmark s =
     (case db_find couch db (count_query selector bookmark) s of
        (Inl error, s') \<Rightarrow> Some (Inl error, s')
      | (Inr result, s') \<Rightarrow>
          (if fr_bookmark result = None \<or> fr_bookmark result = Some [] \<or> length (fr_docs result) = 0
           then Some (Inr (totalSoFar + length (fr_docs result)), s')
           else count_loop couch db selector (totalSoFar + length (fr_docs result))
                  (fr_bookmark result) s'))"

definition count ::
  "host \<Rightarrow> config \<Rightarrow> 's couch \<Rightarrow> string \<Rightarrow> json \<Rightarrow> 's \<Rightarrow> ((js_error + nat) \<times> 's) option" where
  "count h cfg couch model whr s =
     (case getDatabase couch (getModelName h model) cfg s of
        (Inl error, s') \<Rightarrow> Some (Inl error, s')
      | (Inr db, s') \<Rightarrow>
          (let transformedWhere = transformWhereClause h whr (getDefaultModelName h model);
               selector = withModelFilter h cfg model
                            (selector_entries (convertWhereToSelector transformedWhere))
           in count_loop couch db selector 0 None s'))"

section \<open>An engine for the examples\<close>

text \<open>
  The examples below run on one engine. Its comparison is the \<open>IsLessThan\<close> of ECMAScript on
  the values of the model; its sort proceeds as V8 does on an array of fewer than 64 elements.
\<close>

subsection \<open>The comparison \<open>x < y\<close>\<close>

text \<open>
  The numeric value of a string (\<open>StringToNumber\<close>): \<open>Finite m e\<close> is \<open>m\<close> times ten to the
  power \<open>e\<close>. A numeric string stands for the exact decimal it spells; the rounding to a
  double is not modelled. Characters are code units below 256, of which the white space
  is tab, line feed, vertical tab, form feed, carriage return, space and no-break space.
\<close>

datatype js_number = NaN | NegInf | Finite int int | PosInf

definition is_white_space :: "char \<Rightarrow> bool" where
  "is_white_space c = ((of_char c :: nat) \<in> {9, 10, 11, 12, 13, 32, 160})"

definition trim :: "string \<Rightarrow> string" where
  "trim s = rev (dropWhile is_white_space (rev (dropWhile is_white_space s)))"

text \<open>The value of a digit in a base, \<open>None\<close> when the character is no digit of that base.\<close>

definition digit_of :: "nat \<Rightarrow> char \<Rightarrow> nat option" where
  "digit_of base c =
     (let n = (of_char c :: nat);
          d = (if 48 \<le> n \<and> n \<le> 57 then n - 48
               else if 97 \<le> n \<and> n \<le> 102 then n - 87
               else if 65 \<le> n \<and> n \<le> 70 then n - 55
               else base)
      in if d < base then Some d else None)"

fun digits_value :: "nat \<Rightarrow> nat \<Rightarrow> string \<Rightarrow> nat option" where
  "digits_value base acc [] = Some acc"
| "digits_value base acc (c # cs) =
     (case digit_of base c of
        None \<Rightarrow> None
      | Some d \<Rightarrow> digits_value base (acc * base + d) cs)"

text \<open>One digit or more.\<close>

definition read_digits :: "nat \<Rightarrow> string \<Rightarrow> nat option" where
  "read_digits base s = (if s = [] then None else digits_value base 0 s)"

text \<open>\<open>0x\<close>, \<open>0o\<close> and \<open>0b\<close> literals, after the prefix.\<close>

definition radix_literal :: "nat \<Rightarrow> string \<Rightarrow> js_number" where
  "radix_literal base s =
     (case read_digits base s of Some n \<Rightarrow> Finite (int n) 0 | None \<Rightarrow> NaN)"

text \<open>The exponent after \<open>e\<close> or \<open>E\<close>: digits with an optional sign.\<close>

definition signed_integer :: "string \<Rightarrow> int option" where
  "signed_integer s =
     (case s of
        [] \<Rightarrow> None
      | c # cs \<Rightarrow>
          if c = CHR ''+'' then map_option int (read_digits 10 cs)
          else if c = CHR ''-'' then map_option (\<lambda>n. - int n) (read_digits 10 cs)
          else map_option int (read_digits 10 s))"

text \<open>
  An unsigned decimal literal: \<open>Infinity\<close>, or digits with an optional fraction and an
  optional exponent, at least one digit before or after the point.
\<close>

definition unsigned_decimal :: "string \<Rightarrow> js_number" where
  "unsigned_decimal s =
     (if s = ''Infinity'' then PosInf
      else
        (let mantissa = takeWhile (\<lambda>c. c \<noteq> CHR ''e'' \<and> c \<noteq> CHR ''E'') s;
             exponentPart = drop (length mantissa) s;
             whole = takeWhile (\<lambda>c. c \<noteq> CHR ''.'') mantissa;
             fraction = drop 1 (drop (length whole) mantissa);
             exponent = (if exponentPart = [] then Some 0 else signed_integer (tl exponentPart))
         in if whole = [] \<and> fraction = [] then NaN
            else (case digits_value 10 0 (whole @ fraction) of
                    None \<Rightarrow> NaN
                  | Some m \<Rightarrow>
                      (case exponent of
                         None \<Rightarrow> NaN
                       | Some e \<Rightarrow> Finite (int m) (e - int (length fraction))))))"

fun negate :: "js_number \<Rightarrow> js_number" where
  "negate NaN = NaN"
| "negate NegInf = PosInf"
| "negate PosInf = NegInf"
| "negate (Finite m e) = Finite (- m) e"

definition StringToNumber :: "string \<Rightarrow> js_number" where
  "StringToNumber str =
     (let s = trim str in
      if s = [] then Finite 0 0
      else if take 2 s = ''0x'' \<or> take 2 s = ''0X'' then radix_literal 16 (drop 2 s)
      else if take 2 s = ''0o'' \<or> take 2 s = ''0O'' then radix_literal 8 (drop 2 s)
      else if take 2 s = ''0b'' \<or> take 2 s = ''0B'' then radix_literal 2 (drop 2 s)
      else if hd s = CHR ''+'' then unsigned_decimal (tl s)
      else if hd s = CHR ''-'' then negate (unsigned_decimal (tl s))
      else unsigned_decimal s)"

text \<open>
  \<open>ToPrimitive\<close>: an array becomes the string of its elements joined by commas, any other
  object \<open>[object Object]\<close>. \<open>ToNumber\<close> of the result.
\<close>

fun ToPrimitive :: "json \<Rightarrow> json" where
  "ToPrimitive (JArr xs) = JStr (js_String (JArr xs))"
| "ToPrimitive (JObj kvs) = JStr (js_String (JObj kvs))"
| "ToPrimitive v = v"

fun ToNumber :: "json \<Rightarrow> js_number" where
  "ToNumber JUndef = NaN"
| "ToNumber JNull = Finite 0 0"
| "ToNumber (JBool b) = Finite (if b then 1 else 0) 0"
| "ToNumber (JNum n) = Finite n 0"
| "ToNumber (JStr s) = StringToNumber s"
| "ToNumber (JArr xs) = StringToNumber (js_String (JArr xs))"
| "ToNumber (JObj kvs) = StringToNumber (js_String (JObj kvs))"

text \<open>\<open><\<close> on numbers: \<open>NaN\<close> is below nothing and nothing is below it.\<close>

fun number_lt :: "js_number \<Rightarrow> js_number \<Rightarrow> bool" where
  "number_lt NaN y = False"
| "number_lt x NaN = False"
| "number_lt PosInf y = False"
| "number_lt x NegInf = False"
| "number_lt NegInf y = True"
| "number_lt x PosInf = True"
| "number_lt (Finite m e) (Finite n f) =
     (let k = min e f in m * 10 ^ nat (e - k) < n * 10 ^ nat (f - k))"

text \<open>
  \<open>x < y\<close>: two strings compare by code units; in every other case both sides are turned
  into numbers.
\<close>

definition js_lt :: "json \<Rightarrow> json \<Rightarrow> bool" where
  "js_lt x y =
     (case ToPrimitive x of
        JStr a \<Rightarrow>
          (case ToPrimitive y of
             JStr b \<Rightarrow> str_lt a b
           | py \<Rightarrow> number_lt (StringToNumber a) (ToNumber py))
      | px \<Rightarrow> number_lt (ToNumber px) (ToNumber (ToPrimitive y)))"

subsection \<open>\<open>Array.prototype.sort\<close>\<close>

text \<open>
  The sort finds the run at the start of the array: descending when the second element
  compares below the first, and then reversed; ascending otherwise. The elements after the
  run are inserted one by one, each at the place a binary search of the sorted part gives.
  This is what V8 does throughout an array of fewer than 64 elements. For a consistent
  comparator every stable sort returns the same list.
\<close>

fun run_rest :: "('a \<Rightarrow> 'a \<Rightarrow> int) \<Rightarrow> bool \<Rightarrow> 'a \<Rightarrow> 'a list \<Rightarrow> nat" where
  "run_rest cmp descending previous [] = 0"
| "run_rest cmp descending previous (x # xs) =
     (let order = cmp x previous in
      if (if descending then order \<ge> 0 else order < 0) then 0
      else Suc (run_rest cmp descending x xs))"

function binary_search :: "('a \<Rightarrow> 'a \<Rightarrow> int) \<Rightarrow> 'a \<Rightarrow> 'a list \<Rightarrow> nat \<Rightarrow> nat \<Rightarrow> nat" where
  "binary_search cmp pivot xs left right =
     (if left < right
      then (let mid = left + (right - left) div 2 in
            if cmp pivot (xs ! mid) < 0 then binary_search cmp pivot xs left mid
            else binary_search cmp pivot xs (mid + 1) right)
      else left)"
  by pat_completeness auto
termination
  by (relation "measure (\<lambda>(cmp, pivot, xs, left, right). right - left)") auto

declare binary_search.simps [simp del]

definition binary_insert :: "('a \<Rightarrow> 'a \<Rightarrow> int) \<Rightarrow> 'a list \<Rightarrow> 'a \<Rightarrow> 'a list" where
  "binary_insert cmp sortedPart pivot =
     (let left = binary_search cmp pivot sortedPart 0 (length sortedPart)
      in take left sortedPart @ pivot # drop left sortedPart)"

fun insertion_sort :: "('a \<Rightarrow> 'a \<Rightarrow> int) \<Rightarrow> 'a list \<Rightarrow> 'a list" where
  "insertion_sort cmp (a # b # xs) =
     (let descending = cmp b a < 0;
          runLength = 2 + run_rest cmp descending b xs;
          run = take runLength (a # b # xs)
      in foldl (binary_insert cmp) (if descending then rev run else run)
           (drop runLength (a # b # xs)))"
| "insertion_sort cmp xs = xs"

definition insertion_engine :: engine where
  "insertion_engine = \<lparr>array_sort = insertion_sort, less_than = js_lt\<rparr>"

section \<open>A scripted store\<close>

text \<open>
  A store whose answers are fixed in advance: every call consumes the next reply of the
  script, whatever is asked. It stands for a store under other writers, where a write can be
  rejected although the revision was read just before.
\<close>

datatype reply =
    ReplyErr js_error
  | ReplyUnit
  | ReplyDoc obj
  | ReplyInsert insert_response
  | ReplyFind find_result

definition script_unit :: "(unit, reply list) io" where
  "script_unit s =
     (case s of
        [] \<Rightarrow> (Inl (Error ''script exhausted''), [])
      | ReplyUnit # rs \<Rightarrow> (Inr (), rs)
      | ReplyErr e # rs \<Rightarrow> (Inl e, rs)
      | _ # rs \<Rightarrow> (Inl (Error ''unexpected reply''), rs))"

definition script_doc :: "(obj, reply list) io" where
  "script_doc s =
     (case s of
        [] \<Rightarrow> (Inl (Error ''script exhausted''), [])
      | ReplyDoc d # rs \<Rightarrow> (Inr d, rs)
      | ReplyErr e # rs \<Rightarrow> (Inl e, rs)
      | _ # rs \<Rightarrow> (Inl (Error ''unexpected reply''), rs))"

definition script_insert :: "(insert_response, reply list) io" where
  "script_insert s =
     (case s of
        [] \<Rightarrow> (Inl (Error ''script exhausted''), [])
      | ReplyInsert r # rs \<Rightarrow> (Inr r, rs)
      | ReplyErr e # rs \<Rightarrow> (Inl e, rs)
      | _ # rs \<Rightarrow> (Inl (Error ''unexpected reply''), rs))"

definition script_find :: "(find_result, reply list) io" where
  "script_find s =
     (case s of
        [] \<Rightarrow> (Inl (Error ''script exhausted''), [])
      | ReplyFind r # rs \<Rightarrow> (Inr r, rs)
      | ReplyErr e # rs \<Rightarrow> (Inl e, rs)
      | _ # rs \<Rightarrow> (Inl (Error ''unexpected reply''), rs))"

definition script_couch :: "reply list couch" where
  "script_couch =
     \<lparr>srv_db_get = (\<lambda>name. script_unit),
      srv_db_create = (\<lambda>name. script_unit),
      db_insert = (\<lambda>db doc. script_insert),
      db_get = (\<lambda>db docId. script_doc),
      db_destroy = (\<lambda>db docId rev. script_unit),
      db_find = (\<lambda>db query. script_find)\<rparr>"

text \<open>A host framework that renames nothing, and the shared-store configuration.\<close>

definition plain_host :: host where
  "plain_host =
     \<lparr>getModelName = (\<lambda>model. model),
      getDefaultModelName = (\<lambda>model. model),
      getFieldName = (\<lambda>model field. field),
      transformInput = (\<lambda>data model action. data),
      transformOutput = (\<lambda>doc model. doc),
      transformWhereClause = (\<lambda>whr model. whr)\<rparr>"

definition shared_config :: config where
  "shared_config = \<lparr>database = Some ''auth'', useModelAsDatabase = False\<rparr>"

definition conflict :: js_error where
  "conflict = \<lparr>statusCode = Some 409, errorTag = Some ''conflict'', message = ''Document update conflict.''\<rparr>"

section \<open>update: one retry after a conflict\<close>

lemma obj_get_set: "obj_get (obj_set k v kvs) k' = (if k' = k then v else obj_get kvs k')"
  by (induction kvs) auto

lemma obj_get_spread:
  "obj_get (obj_spread a b) k = (case map_of (rev b) k of Some v \<Rightarrow> v | None \<Rightarrow> obj_get a k)"
proof (induction b rule: rev_induct)
  case Nil
  then show ?case by (simp add: obj_spread_def)
next
  case (snoc kv b)
  have "obj_spread a (b @ [kv]) = obj_set (fst kv) (snd kv) (obj_spread a b)"
    by (simp add: obj_spread_def)
  then show ?case using snoc by (cases kv) (simp add: obj_get_set)
qed

lemma mergeUpdate_get:
  "obj_get (mergeUpdate existing td) k =
     (if k = ''_rev'' then obj_get existing ''_rev''
      else if k = ''_id'' then obj_get existing ''_id''
      else (case map_of (rev td) k of Some v \<Rightarrow> v | None \<Rightarrow> obj_get existing k))"
  by (simp add: mergeUpdate_def obj_get_set obj_get_spread)

lemma update_after_conflict:
  assumes db: "getDatabase couch (getModelName h model) cfg s0 = (Inr db, s1)"
    and rid: "update_resolveDocId h cfg couch db model
                (transformWhereClause h whr (getDefaultModelName h model)) s1 = (Inr docId, s2)"
    and get1: "db_get couch db docId s2 = (Inr existing, s3)"
    and ok: "\<not> modelMismatch h cfg model existing"
    and ins1: "db_insert couch db
                 (mergeUpdate existing (transformInput h data (getDefaultModelName h model) ''update''))
                 s3 = (Inl e, s4)"
    and conflict: "statusCode e = Some 409"
  shows "update h cfg couch model whr data s0 =
           update_retry h couch db model
             (transformInput h data (getDefaultModelName h model) ''update'') docId s4"
  using assms
  by (simp add: update_def io_bind_def io_catch_def update_attempt_def insertAndFetch_def Let_def)

lemma update_retry_unfold:
  "update_retry h couch db model td docId s =
     (case db_get couch db docId s of
        (Inl e1, s5) \<Rightarrow> (Inl e1, s5)
      | (Inr fresh, s5) \<Rightarrow>
          (case db_insert couch db (mergeUpdate fresh td) s5 of
             (Inl e2, s6) \<Rightarrow> (Inl e2, s6)
           | (Inr response, s6) \<Rightarrow>
               (case db_get couch db (JStr (resp_id response)) s6 of
                  (Inl e3, s7) \<Rightarrow> (Inl e3, s7)
                | (Inr fullDoc, s7) \<Rightarrow> (Inr (decodeDocument h model fullDoc), s7))))"
  by (simp add: update_retry_def insertAndFetch_def io_bind_def io_return_def
      split: prod.splits sum.splits)

lemmas store_defs = script_couch_def script_unit_def script_doc_def script_insert_def
  script_find_def plain_host_def shared_config_def conflict_def Error_def

lemmas io_defs = io_bind_def io_catch_def io_return_def io_throw_def

text \<open>
  Claim C3: when the write of \<open>update\<close> is rejected with status 409, the operation
  fetches the document again, merges the new values over the fresh document with \<open>_id\<close>
  and \<open>_rev\<close> taken from it, and writes once more; whatever error that second write (or
  either fetch) raises is the result, in the state right after the failing call, so there is
  no further retry. The second conjunct is the merge rule: \<open>_id\<close> and \<open>_rev\<close> come from
  the fetched document, every other field from the new values where they have it.
\<close>

theorem update_conflict_retries_once:
  assumes "getDatabase couch (getModelName h model) cfg s0 = (Inr db, s1)"
    and "update_resolveDocId h cfg couch db model
           (transformWhereClause h whr (getDefaultModelName h model)) s1 = (Inr docId, s2)"
    and "db_get couch db docId s2 = (Inr existing, s3)"
    and "\<not> modelMismatch h cfg model existing"
    and "db_insert couch db
           (mergeUpdate existing (transformInput h data (getDefaultModelName h model) ''update''))
           s3 = (Inl e, s4)"
    and "statusCode e = Some 409"
  shows "update h cfg couch model whr data s0 =
           (case db_get couch db docId s4 of
              (Inl e1, s5) \<Rightarrow> (Inl e1, s5)
            | (Inr fresh, s5) \<Rightarrow>
                (case db_insert couch db
                        (mergeUpdate fresh
                           (transformInput h data (getDefaultModelName h model) ''update'')) s5 of
                   (Inl e2, s6) \<Rightarrow> (Inl e2, s6)
                 | (Inr response, s6) \<Rightarrow>
                     (case db_get couch db (JStr (resp_id response)) s6 of
                        (Inl e3, s7) \<Rightarrow> (Inl e3, s7)
                      | (Inr fullDoc, s7) \<Rightarrow> (Inr (decodeDocument h model fullDoc), s7))))
       \<and> (\<forall>fresh td k.
             obj_get (mergeUpdate fresh td) k =
               (if k = ''_rev'' then obj_get fresh ''_rev''
                else if k = ''_id'' then obj_get fresh ''_id''
                else (case map_of (rev td) k of Some v \<Rightarrow> v | None \<Rightarrow> obj_get fresh k)))"
proof (intro conjI allI)
  show "update h cfg couch model whr data s0 =
           (case db_get couch db docId s4 of
              (Inl e1, s5) \<Rightarrow> (Inl e1, s5)
            | (Inr fresh, s5) \<Rightarrow>
                (case db_insert couch db
                        (mergeUpdate fresh
                           (transformInput h data (getDefaultModelName h model) ''update'')) s5 of
                   (Inl e2, s6) \<Rightarrow> (Inl e2, s6)
                 | (Inr response, s6) \<Rightarrow>
                     (case db_get couch db (JStr (resp_id response)) s6 of
                        (Inl e3, s7) \<Rightarrow> (Inl e3, s7)
                      | (Inr fullDoc, s7) \<Rightarrow> (Inr (decodeDocument h model fullDoc), s7))))"
    unfolding update_after_conflict[OF assms] by (rule update_retry_unfold)
qed (rule mergeUpdate_get)

text \<open>
  The claim on a scripted store: the first write and the retry's write are both rejected with
  409. The conflict reaches the caller and the sixth reply of the script is never asked for.
\<close>

theorem update_conflict_retries_once_witness:
  "update plain_host shared_config script_couch ''user''
     (JArr [Where ''id'' ''eq'' (JStr ''u1'') ''AND'']) [(''name'', JStr ''Bob'')]
     [ReplyUnit,
      ReplyDoc [(''_id'', JStr ''u1''), (''_rev'', JStr ''1-a''), (''name'', JStr ''Al'')],
      ReplyErr conflict,
      ReplyDoc [(''_id'', JStr ''u1''), (''_rev'', JStr ''2-b''), (''name'', JStr ''Alice'')],
      ReplyErr conflict,
      ReplyDoc [(''_id'', JStr ''u1''), (''_rev'', JStr ''3-c''), (''name'', JStr ''Eve'')]]
   = (Inl conflict,
      [ReplyDoc [(''_id'', JStr ''u1''), (''_rev'', JStr ''3-c''), (''name'', JStr ''Eve'')]])"
proof -
  let ?d1 = "[(''_id'', JStr ''u1''), (''_rev'', JStr ''1-a''), (''name'', JStr ''Al'')]"
  let ?d2 = "[(''_id'', JStr ''u1''), (''_rev'', JStr ''2-b''), (''name'', JStr ''Alice'')]"
  let ?d3 = "[(''_id'', JStr ''u1''), (''_rev'', JStr ''3-c''), (''name'', JStr ''Eve'')]"
  let ?whr = "JArr [Where ''id'' ''eq'' (JStr ''u1'') ''AND'']"
  let ?s1 = "[ReplyDoc ?d1, ReplyErr conflict, ReplyDoc ?d2, ReplyErr conflict, ReplyDoc ?d3]"
  have a1: "getDatabase script_couch (getModelName plain_host ''user'') shared_config
              (ReplyUnit # ?s1) = (Inr ''auth'', ?s1)"
    by (simp add: getDatabase_def store_defs io_defs Let_def)
  have a2: "update_resolveDocId plain_host shared_config script_couch ''auth'' ''user''
              (transformWhereClause plain_host ?whr (getDefaultModelName plain_host ''user'')) ?s1
            = (Inr (JStr ''u1''), ?s1)"
    by (simp add: update_resolveDocId_def whereDocId_def whereRecordOf_def Where_def store_defs io_defs)
  have a3: "db_get script_couch ''auth'' (JStr ''u1'') ?s1 =
              (Inr ?d1, [ReplyErr conflict, ReplyDoc ?d2, ReplyErr conflict, ReplyDoc ?d3])"
    by (simp add: store_defs)
  have a4: "\<not> modelMismatch plain_host shared_config ''user'' ?d1"
    by (simp add: modelMismatch_def)
  have a5: "db_insert script_couch ''auth''
              (mergeUpdate ?d1 (transformInput plain_host [(''name'', JStr ''Bob'')]
                 (getDefaultModelName plain_host ''user'') ''update''))
              [ReplyErr conflict, ReplyDoc ?d2, ReplyErr conflict, ReplyDoc ?d3]
            = (Inl conflict, [ReplyDoc ?d2, ReplyErr conflict, ReplyDoc ?d3])"
    by (simp add: store_defs)
  have a6: "statusCode conflict = Some 409"
    by (simp add: conflict_def)
  show ?thesis
    using update_conflict_retries_once[OF a1 a2 a3 a4 a5 a6]
    by (simp add: store_defs)
qed

section \<open>create: replacing a document whose identifier is taken\<close>

lemma create_retry_unfold:
  "create_retry h couch db model td s =
     (case db_get couch db (obj_get td ''_id'') s of
        (Inl e1, s3) \<Rightarrow> (Inl e1, s3)
      | (Inr existing, s3) \<Rightarrow>
          (case db_destroy couch db (obj_get td ''_id'')
                  (js_or (obj_get existing ''_rev'') (JStr [])) s3 of
             (Inl e2, s4) \<Rightarrow> (Inl e2, s4)
           | (Inr u, s4) \<Rightarrow>
               (case db_insert couch db td s4 of
                  (Inl e3, s5) \<Rightarrow> (Inl e3, s5)
                | (Inr response, s5) \<Rightarrow>
                    (case db_get couch db (JStr (resp_id response)) s5 of
                       (Inl e4, s6) \<Rightarrow> (Inl e4, s6)
                     | (Inr fullDoc, s6) \<Rightarrow> (Inr (decodeDocument h model fullDoc), s6)))))"
  by (simp add: create_retry_def insertAndFetch_def io_bind_def io_return_def
      split: prod.splits sum.splits)

lemma create_after_failure:
  assumes "getDatabase couch (getModelName h model) cfg s0 = (Inr db, s1)"
    and "insertAndFetch h couch db model (create_transformedData h cfg model data) s1 = (Inl e, s2)"
  shows "create h cfg couch model data s0 =
           (if statusCode e = Some 409 \<and> truthy (obj_get (create_transformedData h cfg model data) ''_id'')
            then create_retry h couch db model (create_transformedData h cfg model data) s2
            else (Inl e, s2))"
  using assms
  by (auto simp: create_def io_bind_def io_catch_def io_throw_def Let_def
      split: prod.splits sum.splits)

lemma insertAndFetch_insert_fails:
  "db_insert couch db doc s = (Inl e, s') \<Longrightarrow> insertAndFetch h couch db model doc s = (Inl e, s')"
  by (simp add: insertAndFetch_def io_bind_def)

text \<open>
  Claim C4: when the first attempt of \<open>create\<close> (insert, fetch, decode) fails with \<open>e\<close>
  -- the third conjunct: in particular when its insert is rejected with \<open>e\<close> -- then, if
  \<open>e\<close> has status 409 and the encoded input carries an \<open>_id\<close>, the operation fetches the
  document under that \<open>_id\<close>, destroys it with the fetched revision, inserts once more,
  fetches and decodes, and any error of these four calls is the result; otherwise \<open>e\<close>
  itself is the result, in the state the failure left.
\<close>

theorem create_conflict_replaces_once:
  assumes "getDatabase couch (getModelName h model) cfg s0 = (Inr db, s1)"
    and "insertAndFetch h couch db model (create_transformedData h cfg model data) s1 = (Inl e, s2)"
  shows "(statusCode e = Some 409 \<and> truthy (obj_get (create_transformedData h cfg model data) ''_id'') \<longrightarrow>
          create h cfg couch model data s0 =
            (case db_get couch db (obj_get (create_transformedData h cfg model data) ''_id'') s2 of
               (Inl e1, s3) \<Rightarrow> (Inl e1, s3)
             | (Inr existing, s3) \<Rightarrow>
                 (case db_destroy couch db (obj_get (create_transformedData h cfg model data) ''_id'')
                         (js_or (obj_get existing ''_rev'') (JStr [])) s3 of
                    (Inl e2, s4) \<Rightarrow> (Inl e2, s4)
                  | (Inr u, s4) \<Rightarrow>
                      (case db_insert couch db (create_transformedData h cfg model data) s4 of
                         (Inl e3, s5) \<Rightarrow> (Inl e3, s5)
                       | (Inr response, s5) \<Rightarrow>
                           (case db_get couch db (JStr (resp_id response)) s5 of
                              (Inl e4, s6) \<Rightarrow> (Inl e4, s6)
                            | (Inr fullDoc, s6) \<Rightarrow>
                                (Inr (decodeDocument h model fullDoc), s6))))))
       \<and> (\<not> (statusCode e = Some 409 \<and> truthy (obj_get (create_transformedData h cfg model data) ''_id'')) \<longrightarrow>
          create h cfg couch model data s0 = (Inl e, s2))
       \<and> (\<forall>e' s'. db_insert couch db (create_transformedData h cfg model data) s1 = (Inl e', s') \<longrightarrow>
            insertAndFetch h couch db model (create_transformedData h cfg model data) s1 = (Inl e', s'))"
  unfolding create_after_failure[OF assms]
  by (simp add: create_retry_unfold insertAndFetch_insert_fails)

text \<open>
  The claim on a scripted store: the insert of a user with the explicit identifier \<open>u1\<close>
  is rejected with 409; the old document is fetched and destroyed, the insert repeated, and
  the decoded new document returned.
\<close>

theorem create_conflict_replaces_once_witness:
  "create plain_host shared_config script_couch ''user''
     [(''id'', JStr ''u1''), (''name'', JStr ''Bob'')]
     [ReplyUnit,
      ReplyErr conflict,
      ReplyDoc [(''_id'', JStr ''u1''), (''_rev'', JStr ''1-a''), (''name'', JStr ''Al''),
                (''betterAuthModel'', JStr ''user'')],
      ReplyUnit,
      ReplyInsert \<lparr>resp_id = ''u1'', resp_rev = ''1-b''\<rparr>,
      ReplyDoc [(''_id'', JStr ''u1''), (''_rev'', JStr ''1-b''), (''id'', JStr ''u1''),
                (''name'', JStr ''Bob''), (''betterAuthModel'', JStr ''user'')]]
   = (Inr [(''_id'', JStr ''u1''), (''id'', JStr ''u1''), (''name'', JStr ''Bob'')], [])"
proof -
  let ?old = "[(''_id'', JStr ''u1''), (''_rev'', JStr ''1-a''), (''name'', JStr ''Al''),
                (''betterAuthModel'', JStr ''user'')]"
  let ?new = "[(''_id'', JStr ''u1''), (''_rev'', JStr ''1-b''), (''id'', JStr ''u1''),
                (''name'', JStr ''Bob''), (''betterAuthModel'', JStr ''user'')]"
  let ?s1 = "[ReplyErr conflict, ReplyDoc ?old, ReplyUnit,
              ReplyInsert \<lparr>resp_id = ''u1'', resp_rev = ''1-b''\<rparr>, ReplyDoc ?new]"
  let ?data = "[(''id'', JStr ''u1''), (''name'', JStr ''Bob'')]"
  have a1: "getDatabase script_couch (getModelName plain_host ''user'') shared_config
              (ReplyUnit # ?s1) = (Inr ''auth'', ?s1)"
    by (simp add: getDatabase_def store_defs io_defs Let_def)
  have a2: "insertAndFetch plain_host script_couch ''auth'' ''user''
              (create_transformedData plain_host shared_config ''user'' ?data) ?s1
            = (Inl conflict, tl ?s1)"
    by (simp add: insertAndFetch_def store_defs io_defs)
  have td: "create_transformedData plain_host shared_config ''user'' ?data =
              [(''id'', JStr ''u1''), (''name'', JStr ''Bob''), (''_id'', JStr ''u1''),
               (''betterAuthModel'', JStr ''user'')]"
    by (simp add: create_transformedData_def obj_spread_def plain_host_def shared_config_def)
  have dec: "decodeDocument plain_host ''user'' ?new =
               [(''_id'', JStr ''u1''), (''id'', JStr ''u1''), (''name'', JStr ''Bob'')]"
    by (simp add: decodeDocument_def cleanDocumentForTransform_def mergeOriginalFields_def
        plain_host_def)
  show ?thesis
    using create_conflict_replaces_once[OF a1 a2]
    by (simp add: td dec js_or_def script_couch_def script_unit_def script_doc_def
        script_insert_def conflict_def)
qed

section \<open>updateMany: conflicts are skipped, other failures abort\<close>

text \<open>
  Writing every document in order, each write in the state the previous one left, whatever
  the outcomes: the list of the outcomes and the final state.
\<close>

fun write_all ::
  "'s couch \<Rightarrow> string \<Rightarrow> obj \<Rightarrow> obj list \<Rightarrow> 's \<Rightarrow> (js_error + insert_response) list \<times> 's" where
  "write_all couch db transformedData [] s = ([], s)"
| "write_all couch db transformedData (doc # docs) s =
     (case db_insert couch db (mergeUpdate doc transformedData) s of
        (r, s') \<Rightarrow>
          (case write_all couch db transformedData docs s' of
             (rs, s'') \<Rightarrow> (r # rs, s'')))"

text \<open>All failures among the outcomes are revision conflicts.\<close>

definition only_conflicts :: "(js_error + insert_response) list \<Rightarrow> bool" where
  "only_conflicts rs = list_all (\<lambda>r. case r of Inl e \<Rightarrow> statusCode e = Some 409 | Inr _ \<Rightarrow> True) rs"

definition successes :: "(js_error + insert_response) list \<Rightarrow> nat" where
  "successes rs = length (filter (\<lambda>r. \<not> isl r) rs)"

lemma updateMany_loop_prefix:
  "only_conflicts (fst (write_all couch db td pre s)) \<Longrightarrow>
   updateMany_loop couch db td (pre @ rest) n s =
     updateMany_loop couch db td rest (n + successes (fst (write_all couch db td pre s)))
       (snd (write_all couch db td pre s))"
proof (induction pre arbitrary: n s)
  case Nil
  then show ?case by (simp add: successes_def)
next
  case (Cons d pre)
  obtain r s' where r: "db_insert couch db (mergeUpdate d td) s = (r, s')"
    by (cases "db_insert couch db (mergeUpdate d td) s")
  obtain rs s'' where rs: "write_all couch db td pre s' = (rs, s'')"
    by (cases "write_all couch db td pre s'")
  have oc: "only_conflicts (fst (write_all couch db td pre s'))"
    using Cons.prems r rs by (simp add: only_conflicts_def)
  show ?case
  proof (cases r)
    case (Inl e)
    then have "statusCode e = Some 409"
      using Cons.prems r rs by (simp add: only_conflicts_def)
    then show ?thesis
      using Cons.IH[OF oc, of n] r rs Inl by (simp add: successes_def)
  next
    case (Inr a)
    then show ?thesis
      using Cons.IH[OF oc, of "n + 1"] r rs by (simp add: successes_def)
  qed
qed

lemma updateMany_loop_all:
  "only_conflicts (fst (write_all couch db td docs s)) \<Longrightarrow>
   updateMany_loop couch db td docs n s =
     (Inr (n + successes (fst (write_all couch db td docs s))), snd (write_all couch db td docs s))"
  using updateMany_loop_prefix[of couch db td docs s "[]" n]
  by (simp add: io_return_def)

lemma updateMany_loop_abort:
  assumes "only_conflicts (fst (write_all couch db td pre s))"
    and "db_insert couch db (mergeUpdate doc td) (snd (write_all couch db td pre s)) = (Inl e, s')"
    and "statusCode e \<noteq> Some 409"
  shows "updateMany_loop couch db td (pre @ doc # post) n s = (Inl e, s')"
  using updateMany_loop_prefix[OF assms(1), of "doc # post" n] assms(2,3)
  by simp

lemma updateMany_found:
  assumes "getDatabase couch (getModelName h model) cfg s0 = (Inr db, s1)"
    and "db_find couch db
           (manyQuery h cfg model (transformWhereClause h whr (getDefaultModelName h model))) s1
         = (Inr result, s2)"
  shows "updateMany h cfg couch model whr (Some d) s0 =
           updateMany_loop couch db (transformInput h d (getDefaultModelName h model) ''update'')
             (fr_docs result) 0 s2"
  using assms by (simp add: updateMany_def io_bind_def Let_def)

text \<open>
  Claim C5: \<open>updateMany\<close> writes the found documents one by one, in order. If every
  failed write is a conflict (status 409), the result is the number of writes that succeeded,
  in the state after the last write. If the write of some document fails with another status
  after only successes and conflicts before it, that error is the result, in the state that
  write left: the documents after it are not written.
\<close>

theorem updateMany_counts_successful_writes:
  assumes "getDatabase couch (getModelName h model) cfg s0 = (Inr db, s1)"
    and "db_find couch db
           (manyQuery h cfg model (transformWhereClause h whr (getDefaultModelName h model))) s1
         = (Inr result, s2)"
  shows "(only_conflicts
            (fst (write_all couch db (transformInput h d (getDefaultModelName h model) ''update'')
                    (fr_docs result) s2)) \<longrightarrow>
          updateMany h cfg couch model whr (Some d) s0 =
            (Inr (successes
                    (fst (write_all couch db
                            (transformInput h d (getDefaultModelName h model) ''update'')
                            (fr_docs result) s2))),
             snd (write_all couch db (transformInput h d (getDefaultModelName h model) ''update'')
                    (fr_docs result) s2)))
       \<and> (\<forall>pre doc post e s'.
             fr_docs result = pre @ doc # post
             \<and> only_conflicts
                 (fst (write_all couch db
                         (transformInput h d (getDefaultModelName h model) ''update'') pre s2))
             \<and> db_insert couch db
                 (mergeUpdate doc (transformInput h d (getDefaultModelName h model) ''update''))
                 (snd (write_all couch db
                         (transformInput h d (getDefaultModelName h model) ''update'') pre s2))
               = (Inl e, s')
             \<and> statusCode e \<noteq> Some 409 \<longrightarrow>
             updateMany h cfg couch model whr (Some d) s0 = (Inl e, s'))"
  unfolding updateMany_found[OF assms]
  by (auto simp: updateMany_loop_all updateMany_loop_abort)

lemma conflict_status: "statusCode conflict = Some 409"
  by (simp add: conflict_def)

text \<open>
  The claim on a scripted store: three documents are found, the second write is rejected with
  409, and the result is 2.
\<close>

theorem updateMany_counts_successful_writes_witness:
  "updateMany plain_host shared_config script_couch ''user''
     (JArr [Where ''role'' ''eq'' (JStr ''guest'') ''AND'']) (Some [(''role'', JStr ''member'')])
     [ReplyUnit,
      ReplyFind \<lparr>fr_docs = [[(''_id'', JStr ''u1''), (''_rev'', JStr ''1-a'')],
                            [(''_id'', JStr ''u2''), (''_rev'', JStr ''1-b'')],
                            [(''_id'', JStr ''u3''), (''_rev'', JStr ''1-c'')]],
                 fr_bookmark = None\<rparr>,
      ReplyInsert \<lparr>resp_id = ''u1'', resp_rev = ''2-a''\<rparr>,
      ReplyErr conflict,
      ReplyInsert \<lparr>resp_id = ''u3'', resp_rev = ''2-c''\<rparr>]
   = (Inr 2, [])"
proof -
  let ?docs = "[[(''_id'', JStr ''u1''), (''_rev'', JStr ''1-a'')],
                [(''_id'', JStr ''u2''), (''_rev'', JStr ''1-b'')],
                [(''_id'', JStr ''u3''), (''_rev'', JStr ''1-c'')]]"
  let ?result = "\<lparr>fr_docs = ?docs, fr_bookmark = None\<rparr>"
  let ?s2 = "[ReplyInsert \<lparr>resp_id = ''u1'', resp_rev = ''2-a''\<rparr>, ReplyErr conflict,
              ReplyInsert \<lparr>resp_id = ''u3'', resp_rev = ''2-c''\<rparr>]"
  let ?whr = "JArr [Where ''role'' ''eq'' (JStr ''guest'') ''AND'']"
  have a1: "getDatabase script_couch (getModelName plain_host ''user'') shared_config
              (ReplyUnit # ReplyFind ?result # ?s2) = (Inr ''auth'', ReplyFind ?result # ?s2)"
    by (simp add: getDatabase_def store_defs io_defs Let_def)
  have a2: "db_find script_couch ''auth''
              (manyQuery plain_host shared_config ''user''
                 (transformWhereClause plain_host ?whr (getDefaultModelName plain_host ''user'')))
              (ReplyFind ?result # ?s2) = (Inr ?result, ?s2)"
    by (simp add: store_defs)
  have w: "write_all script_couch ''auth''
             (transformInput plain_host [(''role'', JStr ''member'')]
                (getDefaultModelName plain_host ''user'') ''update'') ?docs ?s2
           = ([Inr \<lparr>resp_id = ''u1'', resp_rev = ''2-a''\<rparr>, Inl conflict,
               Inr \<lparr>resp_id = ''u3'', resp_rev = ''2-c''\<rparr>], [])"
    by (simp add: store_defs)
  show ?thesis
    using updateMany_counts_successful_writes[OF a1 a2, of "[(''role'', JStr ''member'')]"]
    by (simp add: w only_conflicts_def successes_def conflict_status del: write_all.simps)
qed

section \<open>The in-memory store \<open>MockCouchDB\<close>\<close>

text \<open>
  The state of \<open>MockCouchDB\<close>: the databases, each a map from document identifier to
  document in insertion order, and the revision counters. The random suffix of a revision and
  of a generated identifier is fixed; \<open>clock\<close> numbers the generated identifiers.
\<close>

record mock_state =
  databases :: "(string \<times> (string \<times> obj) list) list"
  revCounter :: "(string \<times> nat) list"
  clock :: nat

fun assoc_set :: "'k \<Rightarrow> 'v \<Rightarrow> ('k \<times> 'v) list \<Rightarrow> ('k \<times> 'v) list" where
  "assoc_set k v [] = [(k, v)]"
| "assoc_set k v ((k', v') # kvs) =
     (if k' = k then (k, v) # kvs else (k', v') # assoc_set k v kvs)"

definition not_found :: "string \<Rightarrow> js_error" where
  "not_found msg = \<lparr>statusCode = Some 404, errorTag = None, message = msg\<rparr>"

definition document_conflict :: js_error where
  "document_conflict = \<lparr>statusCode = Some 409, errorTag = None, message = ''Document conflict''\<rparr>"

text \<open>\<open>use(dbName)\<close>: the documents of the database, empty when it does not exist yet.\<close>

definition mock_db :: "mock_state \<Rightarrow> string \<Rightarrow> (string \<times> obj) list" where
  "mock_db s dbName = (case map_of (databases s) dbName of Some db \<Rightarrow> db | None \<Rightarrow> [])"

definition mock_server_get :: "string \<Rightarrow> (unit, mock_state) io" where
  "mock_server_get dbName s =
     (if map_of (databases s) dbName = None then (Inl (not_found ''Database not found''), s)
      else (Inr (), s))"

definition mock_server_create :: "string \<Rightarrow> (unit, mock_state) io" where
  "mock_server_create dbName s =
     (if map_of (databases s) dbName = None
      then (Inr (), s\<lparr>databases := assoc_set dbName [] (databases s)\<rparr>)
      else (Inr (), s))"

definition mock_insert :: "string \<Rightarrow> obj \<Rightarrow> (insert_response, mock_state) io" where
  "mock_insert dbName doc s =
     (let db = mock_db s dbName;
          generated = \<not> truthy (obj_get doc ''_id'');
          docId = (if generated then ''doc_'' @ digits (clock s) else js_String (obj_get doc ''_id''))
      in case map_of db docId of
           Some existing \<Rightarrow>
             if truthy (obj_get doc ''_rev'') \<and> obj_get doc ''_rev'' \<noteq> obj_get existing ''_rev''
             then (Inl document_conflict, s)
             else
               (let n = (case map_of (revCounter s) docId of Some c \<Rightarrow> c | None \<Rightarrow> 0) + 1;
                    newRev = digits n @ ''-r'';
                    document = obj_set ''_rev'' (JStr newRev) (obj_set ''_id'' (JStr docId) doc)
                in (Inr \<lparr>resp_id = docId, resp_rev = newRev\<rparr>,
                    s\<lparr>databases := assoc_set dbName (assoc_set docId document db) (databases s),
                      revCounter := assoc_set docId n (revCounter s),
                      clock := (if generated then clock s + 1 else clock s)\<rparr>))
         | None \<Rightarrow>
             (let n = (case map_of (revCounter s) docId of Some c \<Rightarrow> c | None \<Rightarrow> 0) + 1;
                  newRev = digits n @ ''-r'';
                  document = obj_set ''_rev'' (JStr newRev) (obj_set ''_id'' (JStr docId) doc)
              in (Inr \<lparr>resp_id = docId, resp_rev = newRev\<rparr>,
                  s\<lparr>databases := assoc_set dbName (assoc_set docId document db) (databases s),
                    revCounter := assoc_set docId n (revCounter s),
                    clock := (if generated then clock s + 1 else clock s)\<rparr>)))"

definition mock_get :: "string \<Rightarrow> json \<Rightarrow> (obj, mock_state) io" where
  "mock_get dbName docId s =
     (case map_of (mock_db s dbName) (js_String docId) of
        None \<Rightarrow> (Inl (not_found ''Document not found''), s)
      | Some doc \<Rightarrow> (Inr doc, s))"

definition mock_destroy :: "string \<Rightarrow> json \<Rightarrow> json \<Rightarrow> (unit, mock_state) io" where
  "mock_destroy dbName docId revision s =
     (case map_of (mock_db s dbName) (js_String docId) of
        None \<Rightarrow> (Inl (not_found ''Document not found''), s)
      | Some doc \<Rightarrow>
          if obj_get doc ''_rev'' \<noteq> revision then (Inl document_conflict, s)
          else (Inr (),
                s\<lparr>databases :=
                    assoc_set dbName
                      (filter (\<lambda>kv. fst kv \<noteq> js_String docId) (mock_db s dbName))
                      (databases s)\<rparr>))"

text \<open>\<open>filterDocs\<close>: a raise of \<open>matchesSelector\<close> ends the \<open>find\<close> with that error.\<close>

fun filterDocs :: "(string \<Rightarrow> string \<Rightarrow> bool option) \<Rightarrow> obj list \<Rightarrow> obj \<Rightarrow> obj list option" where
  "filterDocs regex_test [] selector = Some []"
| "filterDocs regex_test (doc # docs) selector =
     (case matchesSelector regex_test (JObj doc) (JObj selector) of
        None \<Rightarrow> None
      | Some b \<Rightarrow>
          (case filterDocs regex_test docs selector of
             None \<Rightarrow> None
           | Some rest \<Rightarrow> Some (if b then doc # rest else rest)))"

text \<open>
  \<open>find\<close>: filter, sort (\<open>sortDocs\<close> hands the comparator of the adapter's in-memory sort,
  on the field names as they are, to the sort of the engine), skip, limit; the bookmark is a
  constant and the bookmark of the query is not read.
\<close>

definition mock_find ::
  "engine \<Rightarrow> (string \<Rightarrow> string \<Rightarrow> bool option) \<Rightarrow> string \<Rightarrow> query \<Rightarrow>
   (find_result, mock_state) io" where
  "mock_find eng regex_test dbName query s =
     (let docs = map snd (mock_db s dbName) in
      case (if length (q_selector query) > 0 then filterDocs regex_test docs (q_selector query)
            else Some docs) of
        None \<Rightarrow> (Inl (Error ''TypeError''), s)
      | Some docs \<Rightarrow>
          (let docs = (case q_sort query of
                         Some sortItems \<Rightarrow>
                           if length sortItems > 0
                           then array_sort eng (compareDocs eng plain_host [] sortItems) docs
                           else docs
                       | None \<Rightarrow> docs);
               docs = (case q_skip query of
                         Some k \<Rightarrow>
                           if k > 0 then drop (nat k) docs
                           else if k < 0 then drop (length docs - nat (- k)) docs
                           else docs
                       | None \<Rightarrow> docs);
               docs = (case q_limit query of
                         Some k \<Rightarrow>
                           if k > 0 then take (nat k) docs
                           else if k < 0 then take (length docs - nat (- k)) docs
                           else docs
                       | None \<Rightarrow> docs)
           in (Inr \<lparr>fr_docs = docs,
                    fr_bookmark = (if length docs > 0 then Some ''mock_bookmark'' else None)\<rparr>,
               s)))"

definition mock_couch ::
  "engine \<Rightarrow> (string \<Rightarrow> string \<Rightarrow> bool option) \<Rightarrow> mock_state couch" where
  "mock_couch eng regex_test =
     \<lparr>srv_db_get = mock_server_get,
      srv_db_create = mock_server_create,
      db_insert = mock_insert,
      db_get = mock_get,
      db_destroy = mock_destroy,
      db_find = mock_find eng regex_test\<rparr>"

section \<open>delete: not found is success\<close>

lemma delete_nothing_matched:
  assumes "getDatabase couch (getModelName h model) cfg s = (Inr db, s)"
    and "\<not> truthy (whereDocId (transformWhereClause h whr (getDefaultModelName h model)))"
    and "db_find couch db
           (resolveQuery h cfg model (transformWhereClause h whr (getDefaultModelName h model))) s
         = (Inr result, s)"
    and "fr_docs result = []"
  shows "delete h cfg couch model whr s = (Inr (), s)"
  using assms
  by (simp add: delete_def delete_resolveDocId_def io_defs Let_def)

lemma delete_get_404:
  assumes "getDatabase couch (getModelName h model) cfg s = (Inr db, s)"
    and "delete_resolveDocId h cfg couch db model
           (transformWhereClause h whr (getDefaultModelName h model)) s = (Inr (Some docId), s)"
    and "db_get couch db docId s = (Inl e, s)"
    and "statusCode e = Some 404"
  shows "delete h cfg couch model whr s = (Inr (), s)"
  using assms
  by (simp add: delete_def delete_attempt_def io_defs Let_def)

lemma delete_destroy_404:
  assumes "getDatabase couch (getModelName h model) cfg s = (Inr db, s)"
    and "delete_resolveDocId h cfg couch db model
           (transformWhereClause h whr (getDefaultModelName h model)) s = (Inr (Some docId), s)"
    and "db_get couch db docId s = (Inr doc, s)"
    and "db_destroy couch db (obj_get doc ''_id'') (js_or (obj_get doc ''_rev'') (JStr [])) s
         = (Inl e, s)"
    and "statusCode e = Some 404"
  shows "delete h cfg couch model whr s = (Inr (), s)"
  using assms
  by (simp add: delete_def delete_attempt_def io_defs Let_def)

text \<open>
  Claim C6: in a state \<open>s\<close> where the database exists, let the reads and the rejected
  remove leave the state as it is. If the filter matches no document, or the fetch of the
  resolved identifier fails with status 404, or the remove of the fetched document fails with
  status 404, then \<open>delete\<close> returns successfully and the state is still \<open>s\<close>; so the same
  \<open>delete\<close> repeated returns successfully again.
\<close>

theorem delete_not_found_is_success:
  assumes "getDatabase couch (getModelName h model) cfg s = (Inr db, s)"
    and "(\<not> truthy (whereDocId (transformWhereClause h whr (getDefaultModelName h model)))
          \<and> (\<exists>result.
                db_find couch db
                  (resolveQuery h cfg model
                     (transformWhereClause h whr (getDefaultModelName h model))) s
                = (Inr result, s)
                \<and> fr_docs result = []))
       \<or> (\<exists>docId e.
             delete_resolveDocId h cfg couch db model
               (transformWhereClause h whr (getDefaultModelName h model)) s
             = (Inr (Some docId), s)
             \<and> db_get couch db docId s = (Inl e, s) \<and> statusCode e = Some 404)
       \<or> (\<exists>docId doc e.
             delete_resolveDocId h cfg couch db model
               (transformWhereClause h whr (getDefaultModelName h model)) s
             = (Inr (Some docId), s)
             \<and> db_get couch db docId s = (Inr doc, s)
             \<and> db_destroy couch db (obj_get doc ''_id'')
                  (js_or (obj_get doc ''_rev'') (JStr [])) s = (Inl e, s)
             \<and> statusCode e = Some 404)"
  shows "delete h cfg couch model whr s = (Inr (), s)
       \<and> delete h cfg couch model whr (snd (delete h cfg couch model whr s)) = (Inr (), s)"
proof -
  have "delete h cfg couch model whr s = (Inr (), s)"
    using assms(2)
  proof (elim disjE exE conjE)
    fix result
    assume "\<not> truthy (whereDocId (transformWhereClause h whr (getDefaultModelName h model)))"
      and "db_find couch db
             (resolveQuery h cfg model (transformWhereClause h whr (getDefaultModelName h model))) s
           = (Inr result, s)"
      and "fr_docs result = []"
    then show ?thesis by (rule delete_nothing_matched[OF assms(1)])
  next
    fix docId e
    assume "delete_resolveDocId h cfg couch db model
              (transformWhereClause h whr (getDefaultModelName h model)) s = (Inr (Some docId), s)"
      and "db_get couch db docId s = (Inl e, s)" and "statusCode e = Some 404"
    then show ?thesis by (rule delete_get_404[OF assms(1)])
  next
    fix docId doc e
    assume "delete_resolveDocId h cfg couch db model
              (transformWhereClause h whr (getDefaultModelName h model)) s = (Inr (Some docId), s)"
      and "db_get couch db docId s = (Inr doc, s)"
      and "db_destroy couch db (obj_get doc ''_id'') (js_or (obj_get doc ''_rev'') (JStr [])) s
           = (Inl e, s)"
      and "statusCode e = Some 404"
    then show ?thesis by (rule delete_destroy_404[OF assms(1)])
  qed
  then show ?thesis by simp
qed

lemmas mock_defs = mock_couch_def mock_server_get_def mock_server_create_def mock_insert_def
  mock_get_def mock_destroy_def mock_find_def mock_db_def not_found_def document_conflict_def

text \<open>
  The claim on the in-memory store holding one user \<open>u1\<close>: deleting the identifier
  \<open>ghost\<close> (the fetch answers 404) and deleting by an e-mail address nobody has (the filter
  matches nothing) both return successfully and leave the store as it was.
\<close>

theorem delete_not_found_is_success_witness:
  "delete plain_host shared_config (mock_couch insertion_engine no_regex) ''user''
     (JArr [Where ''id'' ''eq'' (JStr ''ghost'') ''AND''])
     \<lparr>databases = [(''auth'', [(''u1'', [(''_id'', JStr ''u1''), (''_rev'', JStr ''1-r''),
                                          (''email'', JStr ''a@x.org''),
                                          (''betterAuthModel'', JStr ''user'')])])],
      revCounter = [(''u1'', 1)], clock = 0\<rparr>
   = (Inr (),
      \<lparr>databases = [(''auth'', [(''u1'', [(''_id'', JStr ''u1''), (''_rev'', JStr ''1-r''),
                                           (''email'', JStr ''a@x.org''),
                                           (''betterAuthModel'', JStr ''user'')])])],
       revCounter = [(''u1'', 1)], clock = 0\<rparr>)
   \<and> delete plain_host shared_config (mock_couch insertion_engine no_regex) ''user''
     (JArr [Where ''email'' ''eq'' (JStr ''nobody@x.org'') ''AND''])
     \<lparr>databases = [(''auth'', [(''u1'', [(''_id'', JStr ''u1''), (''_rev'', JStr ''1-r''),
                                          (''email'', JStr ''a@x.org''),
                                          (''betterAuthModel'', JStr ''user'')])])],
      revCounter = [(''u1'', 1)], clock = 0\<rparr>
   = (Inr (),
      \<lparr>databases = [(''auth'', [(''u1'', [(''_id'', JStr ''u1''), (''_rev'', JStr ''1-r''),
                                           (''email'', JStr ''a@x.org''),
                                           (''betterAuthModel'', JStr ''user'')])])],
       revCounter = [(''u1'', 1)], clock = 0\<rparr>)"
proof -
  let ?st = "\<lparr>databases = [(''auth'', [(''u1'', [(''_id'', JStr ''u1''), (''_rev'', JStr ''1-r''),
                                          (''email'', JStr ''a@x.org''),
                                          (''betterAuthModel'', JStr ''user'')])])],
      revCounter = [(''u1'', 1)], clock = 0\<rparr>"
  let ?byId = "JArr [Where ''id'' ''eq'' (JStr ''ghost'') ''AND'']"
  let ?byMail = "JArr [Where ''email'' ''eq'' (JStr ''nobody@x.org'') ''AND'']"
  have a1: "getDatabase (mock_couch insertion_engine no_regex) (getModelName plain_host ''user'') shared_config ?st
            = (Inr ''auth'', ?st)"
    by (simp add: getDatabase_def mock_defs plain_host_def shared_config_def io_defs Let_def)
  have b1: "delete_resolveDocId plain_host shared_config (mock_couch insertion_engine no_regex) ''auth'' ''user''
              (transformWhereClause plain_host ?byId (getDefaultModelName plain_host ''user'')) ?st
            = (Inr (Some (JStr ''ghost'')), ?st)"
    by (simp add: delete_resolveDocId_def whereDocId_def whereRecordOf_def Where_def plain_host_def io_defs)
  have b2: "db_get (mock_couch insertion_engine no_regex) ''auth'' (JStr ''ghost'') ?st
            = (Inl (not_found ''Document not found''), ?st)"
    by (simp add: mock_defs)
  have b3: "statusCode (not_found ''Document not found'') = Some 404"
    by (simp add: not_found_def)
  have c1: "\<not> truthy (whereDocId (transformWhereClause plain_host ?byMail
                                      (getDefaultModelName plain_host ''user'')))"
    by (simp add: whereDocId_def whereRecordOf_def Where_def plain_host_def convertWhereArrayToRecord_def
        conditionObj_def opKey_def closeOrGroup_def)
  have c2: "db_find (mock_couch insertion_engine no_regex) ''auth''
              (resolveQuery plain_host shared_config ''user''
                 (transformWhereClause plain_host ?byMail (getDefaultModelName plain_host ''user'')))
              ?st
            = (Inr \<lparr>fr_docs = [], fr_bookmark = None\<rparr>, ?st)"
    by (simp add: resolveQuery_def withModelFilter_def selector_entries_def eval_where_defs
        mock_defs plain_host_def shared_config_def)
  show ?thesis
    using delete_not_found_is_success[OF a1, of ?byId] delete_not_found_is_success[OF a1, of ?byMail]
      b1 b2 b3 c1 c2
    by auto
qed

section \<open>The discriminator check and documents without a tag\<close>







section \<open>count: following the bookmarks\<close>

text \<open>
  The paging contract of the store's \<open>find\<close> for one selector, in a state \<open>s\<close> that reads
  leave unchanged. \<open>matching\<close> are the documents that match the selector, in the store's
  order, and \<open>pos\<close> reads a bookmark as the number of documents before it. Asked with no
  bookmark or with a non-empty one, \<open>find\<close> returns at most 1000 of the documents from that
  position on, at least one if any is left; a bookmark it returns continues right after the
  page, and it leaves the bookmark out (or empty) only when no document is left.
\<close>

definition paged_find ::
  "'s couch \<Rightarrow> string \<Rightarrow> obj \<Rightarrow> 's \<Rightarrow> obj list \<Rightarrow> (string \<Rightarrow> nat) \<Rightarrow> bool" where
  "paged_find couch db selector s matching pos =
     (\<forall>bookmark. bookmark \<noteq> Some [] \<longrightarrow>
        (\<exists>docs next.
           db_find couch db (count_query selector bookmark) s
             = (Inr \<lparr>fr_docs = docs, fr_bookmark = next\<rparr>, s)
           \<and> length docs \<le> 1000
           \<and> docs = take (length docs) (drop (case bookmark of None \<Rightarrow> 0 | Some b \<Rightarrow> pos b) matching)
           \<and> (docs = [] \<longrightarrow> length matching \<le> (case bookmark of None \<Rightarrow> 0 | Some b \<Rightarrow> pos b))
           \<and> (next = None \<or> next = Some [] \<longrightarrow>
                length matching \<le> (case bookmark of None \<Rightarrow> 0 | Some b \<Rightarrow> pos b) + length docs)
           \<and> (\<forall>b. next = Some b \<and> b \<noteq> [] \<longrightarrow>
                pos b = (case bookmark of None \<Rightarrow> 0 | Some b \<Rightarrow> pos b) + length docs)))"

lemma count_loop_total:
  assumes "paged_find couch db selector s matching pos"
  shows "bookmark \<noteq> Some [] \<Longrightarrow>
         p = (case bookmark of None \<Rightarrow> 0 | Some b \<Rightarrow> pos b) \<Longrightarrow>
         p \<le> length matching \<Longrightarrow>
         count_loop couch db selector p bookmark s = Some (Inr (length matching), s)"
proof (induction "length matching - p" arbitrary: p bookmark rule: less_induct)
  case less
  obtain docs "next" where
    f: "db_find couch db (count_query selector bookmark) s
          = (Inr \<lparr>fr_docs = docs, fr_bookmark = next\<rparr>, s)"
    and len: "length docs \<le> 1000"
    and page: "docs = take (length docs) (drop p matching)"
    and empty: "docs = [] \<longrightarrow> length matching \<le> p"
    and last: "next = None \<or> next = Some [] \<longrightarrow> length matching \<le> p + length docs"
    and cont: "\<forall>b. next = Some b \<and> b \<noteq> [] \<longrightarrow> pos b = p + length docs"
    using assms less.prems(1,2) unfolding paged_find_def by blast
  have le: "p + length docs \<le> length matching"
  proof -
    have "length docs = min (length docs) (length (drop p matching))"
      using arg_cong[OF page, of length] by simp
    then have "length docs \<le> length matching - p"
      by simp
    then show ?thesis using less.prems(3) by simp
  qed
  show ?case
  proof (cases "next = None \<or> next = Some [] \<or> length docs = 0")
    case True
    then have "p + length docs = length matching"
      using le empty last by auto
    then show ?thesis
      using True f by (subst count_loop.simps) auto
  next
    case False
    then obtain b where b: "next = Some b" "b \<noteq> []" and nonempty: "docs \<noteq> []"
      by auto
    have posb: "pos b = p + length docs" using cont b by simp
    have "count_loop couch db selector (p + length docs) (Some b) s = Some (Inr (length matching), s)"
    proof (rule less.hyps)
      show "length matching - (p + length docs) < length matching - p"
        using nonempty le by (cases docs) auto
      show "Some b \<noteq> Some []" using b by simp
      show "p + length docs = (case Some b of None \<Rightarrow> 0 | Some b \<Rightarrow> pos b)"
        using posb by simp
      show "p + length docs \<le> length matching" by (rule le)
    qed
    then show ?thesis
      using False f b by (subst count_loop.simps) auto
  qed
qed

text \<open>
  Claim C8: over a store whose \<open>find\<close> pages the \<open>N\<close> documents matching the selector
  as the contract above says, with pages of at most 1000 documents, the loop of \<open>count\<close>
  terminates and the result is exactly \<open>N\<close>, however many pages that takes.
\<close>

theorem count_follows_all_pages:
  assumes "getDatabase couch (getModelName h model) cfg s0 = (Inr db, s)"
    and "paged_find couch db
           (withModelFilter h cfg model
              (selector_entries (convertWhereToSelector
                 (transformWhereClause h whr (getDefaultModelName h model)))))
           s matching pos"
  shows "count h cfg couch model whr s0 = Some (Inr (length matching), s)"
  using assms(1) count_loop_total[OF assms(2), of None 0]
  by (simp add: count_def Let_def)

text \<open>
  A read-only store that pages: it holds the documents \<open>matching\<close>, a bookmark is as long
  as the number of documents before it, and every page comes with the bookmark of its end, as
  CouchDB answers (the last page is then an empty one).
\<close>

definition paging_couch :: "obj list \<Rightarrow> unit couch" where
  "paging_couch matching =
     \<lparr>srv_db_get = (\<lambda>name s. (Inr (), s)),
      srv_db_create = (\<lambda>name s. (Inr (), s)),
      db_insert = (\<lambda>db doc s. (Inl (Error ''read only''), s)),
      db_get = (\<lambda>db docId s. (Inl (not_found ''Document not found''), s)),
      db_destroy = (\<lambda>db docId revision s. (Inl (Error ''read only''), s)),
      db_find = (\<lambda>db query s.
        let p = (case q_bookmark query of None \<Rightarrow> 0 | Some b \<Rightarrow> length b);
            docs = (case q_limit query of
                      Some k \<Rightarrow> take (nat k) (drop p matching)
                    | None \<Rightarrow> drop p matching)
        in (Inr \<lparr>fr_docs = docs, fr_bookmark = Some (replicate (p + length docs) CHR ''x'')\<rparr>, s))\<rparr>"

lemma paging_couch_paged: "paged_find (paging_couch matching) db selector () matching length"
  unfolding paged_find_def
proof (intro allI impI)
  fix bookmark :: "string option"
  assume ne: "bookmark \<noteq> Some []"
  let ?p = "case bookmark of None \<Rightarrow> 0 | Some b \<Rightarrow> length b"
  let ?docs = "take 1000 (drop ?p matching)"
  let ?next = "Some (replicate (?p + length ?docs) CHR ''x'')"
  have q: "(case q_bookmark (count_query selector bookmark) of None \<Rightarrow> 0 | Some b \<Rightarrow> length b) = ?p"
    using ne by (cases bookmark) (auto simp: count_query_def)
  have f: "db_find (paging_couch matching) db (count_query selector bookmark) ()
             = (Inr \<lparr>fr_docs = ?docs, fr_bookmark = ?next\<rparr>, ())"
    using q by (simp add: paging_couch_def Let_def) (simp add: count_query_def)
  have "length ?docs \<le> 1000" by simp
  moreover have "?docs = take (length ?docs) (drop ?p matching)"
    by (simp add: min_def)
  moreover have "?docs = [] \<longrightarrow> length matching \<le> ?p"
    by auto
  moreover have "?next = None \<or> ?next = Some [] \<longrightarrow> length matching \<le> ?p + length ?docs"
    by auto
  moreover have "\<forall>b. ?next = Some b \<and> b \<noteq> [] \<longrightarrow> length b = ?p + length ?docs"
    by auto
  ultimately show "\<exists>docs next.
           db_find (paging_couch matching) db (count_query selector bookmark) ()
             = (Inr \<lparr>fr_docs = docs, fr_bookmark = next\<rparr>, ())
           \<and> length docs \<le> 1000
           \<and> docs = take (length docs) (drop (case bookmark of None \<Rightarrow> 0 | Some b \<Rightarrow> length b) matching)
           \<and> (docs = [] \<longrightarrow> length matching \<le> (case bookmark of None \<Rightarrow> 0 | Some b \<Rightarrow> length b))
           \<and> (next = None \<or> next = Some [] \<longrightarrow>
                length matching \<le> (case bookmark of None \<Rightarrow> 0 | Some b \<Rightarrow> length b) + length docs)
           \<and> (\<forall>b. next = Some b \<and> b \<noteq> [] \<longrightarrow>
                length b = (case bookmark of None \<Rightarrow> 0 | Some b \<Rightarrow> length b) + length docs)"
    using f by blast
qed

text \<open>
  The claim on the paging store with 2500 documents: three pages of 1000, 1000 and 500
  documents and an empty fourth are read, and the result is 2500.
\<close>

theorem count_follows_all_pages_witness:
  "count plain_host shared_config
     (paging_couch (replicate 2500 [(''_id'', JStr ''u''), (''betterAuthModel'', JStr ''user'')]))
     ''user'' (JArr []) ()
   = Some (Inr 2500, ())"
proof -
  let ?docs = "replicate 2500 [(''_id'', JStr ''u''), (''betterAuthModel'', JStr ''user'')]"
  have a1: "getDatabase (paging_couch ?docs) (getModelName plain_host ''user'') shared_config ()
            = (Inr ''auth'', ())"
    by (simp add: getDatabase_def paging_couch_def shared_config_def io_defs Let_def)
  show ?thesis
    using count_follows_all_pages[where whr = "JArr []", OF a1 paging_couch_paged]
    by simp
qed

section \<open>findMany: the fallback without index\<close>














section \<open>Shared store: the discriminator keeps the models apart\<close>

text \<open>
  A selector requires the model \<open>name\<close> when it carries the discriminator the way the
  adapter writes it: as the top-level entry \<open>betterAuthModel: name\<close>, or as the member
  \<open>{ betterAuthModel: name }\<close> of its top-level \<open>$and\<close>.
\<close>

definition requires_model :: "obj \<Rightarrow> string \<Rightarrow> bool" where
  "requires_model selector name =
     (obj_get selector ''betterAuthModel'' = JStr name
      \<or> (case obj_get selector ''$and'' of
            JArr sub \<Rightarrow> JObj [(''betterAuthModel'', JStr name)] \<in> set sub
          | _ \<Rightarrow> False))"

text \<open>
  The contract of the store's \<open>find\<close> that the claim rests on, as CouchDB evaluates a
  selector: all top-level entries, and all members of \<open>$and\<close>, have to hold. So the documents
  found under a selector that requires a model all carry that model.
\<close>

definition find_honours_model :: "'s couch \<Rightarrow> bool" where
  "find_honours_model couch =
     (\<forall>db query s result s' name.
        db_find couch db query s = (Inr result, s') \<and> requires_model (q_selector query) name \<longrightarrow>
        (\<forall>d \<in> set (fr_docs result). obj_get d ''betterAuthModel'' = JStr name))"

lemma create_stamps_model:
  "\<not> useModelAsDatabase cfg \<Longrightarrow>
   obj_get (create_transformedData h cfg model data) ''betterAuthModel'' = JStr (getModelName h model)"
  by (simp add: create_transformedData_def Let_def obj_get_set)

lemma withModelFilter_requires:
  "\<not> useModelAsDatabase cfg \<Longrightarrow>
   requires_model (withModelFilter h cfg model selector) (getModelName h model)"
  by (simp add: requires_model_def withModelFilter_def obj_get_set)

lemma findMany_selector_requires:
  "\<not> useModelAsDatabase cfg \<Longrightarrow>
   requires_model (findMany_selector h cfg model tw) (getModelName h model)"
  by (auto simp: requires_model_def findMany_selector_def Let_def obj_get_set split: json.splits)

lemma findMany_fetch_find:
  assumes "findMany_fetch couch db query s = (Inr (result, b1, b2), s')"
  shows "\<exists>query' s2. q_selector query' = q_selector query
           \<and> db_find couch db query' s2 = (Inr result, s')"
proof (cases "db_find couch db query s")
  case (Pair r s1)
  show ?thesis
  proof (cases r)
    case (Inr res)
    then have "result = res" "s' = s1"
      using assms Pair by (auto simp: findMany_fetch_def io_defs)
    then show ?thesis
      using Pair Inr by blast
  next
    case (Inl e)
    then have f: "db_find couch db (query\<lparr>q_sort := None, q_skip := None\<rparr>) s1
                 = (Inr result, s')"
      using assms Pair
      by (auto simp: findMany_fetch_def io_defs split: if_splits prod.splits sum.splits)
    have "q_selector (query\<lparr>q_sort := None, q_skip := None\<rparr>) = q_selector query"
      by simp
    then show ?thesis
      using f by blast
  qed
qed

text \<open>The sort of the engine returns the elements of the array, rearranged.\<close>

definition sort_rearranges :: "engine \<Rightarrow> bool" where
  "sort_rearranges eng = (\<forall>cmp xs. set (array_sort eng cmp xs) = set xs)"

lemma findMany_from_store:
  assumes "\<not> useModelAsDatabase cfg" and "find_honours_model couch" and "sort_rearranges eng"
    and "findMany eng h cfg couch model whr limit offset orderBy sortBy s0 = (Inr rs, s')"
  shows "\<exists>db s1 query s2 result.
           getDatabase couch (getModelName h model) cfg s0 = (Inr db, s1)
         \<and> q_selector query =
             findMany_selector h cfg model (transformWhereClause h whr (getDefaultModelName h model))
         \<and> db_find couch db query s2 = (Inr result, s')
         \<and> (\<forall>d \<in> set (fr_docs result). obj_get d ''betterAuthModel'' = JStr (getModelName h model))
         \<and> (\<forall>r \<in> set rs. \<exists>d \<in> set (fr_docs result). r = decodeDocument h model d)"
proof -
  let ?ob = "case orderBy of Some ob \<Rightarrow> Some ob
             | None \<Rightarrow> (case sortBy of Some sb \<Rightarrow> Some [sb] | None \<Rightarrow> None)"
  let ?q = "findMany_query h cfg model (transformWhereClause h whr (getDefaultModelName h model))
              limit offset ?ob"
  obtain db s1 where db: "getDatabase couch (getModelName h model) cfg s0 = (Inr db, s1)"
    using assms(4)
    by (cases "getDatabase couch (getModelName h model) cfg s0")
       (auto simp: findMany_def io_defs Let_def split: sum.splits)
  obtain result b1 b2 where fetch: "findMany_fetch couch db ?q s1 = (Inr (result, b1, b2), s')"
    using assms(4) db
    by (cases "findMany_fetch couch db ?q s1")
       (auto simp: findMany_def io_defs Let_def split: sum.splits)
  obtain query s2 where sel: "q_selector query = q_selector ?q"
    and find: "db_find couch db query s2 = (Inr result, s')"
    using findMany_fetch_find[OF fetch] by blast
  have sel': "q_selector query =
                findMany_selector h cfg model (transformWhereClause h whr (getDefaultModelName h model))"
    using sel by (simp add: findMany_query_def)
  have "requires_model (q_selector query) (getModelName h model)"
    using assms(1) sel' by (simp add: findMany_selector_requires)
  then have tagged:
    "\<forall>d \<in> set (fr_docs result). obj_get d ''betterAuthModel'' = JStr (getModelName h model)"
    using assms(2) find unfolding find_honours_model_def by blast
  let ?docs1 = "(case ?ob of
                      Some ob \<Rightarrow>
                        if b1 \<and> length ob > 0
                        then array_sort eng (compareDocs eng h model ob) (fr_docs result)
                        else fr_docs result
                    | None \<Rightarrow> fr_docs result)"
  let ?docs2 = "(case offset of
                      Some k \<Rightarrow> if b2 \<and> k > 0 then drop (nat k) ?docs1 else ?docs1
                    | None \<Rightarrow> ?docs1)"
  have rs: "rs = map (decodeDocument h model) ?docs2"
    using assms(4) db fetch by (simp add: findMany_def io_defs Let_def)
  have "set ?docs1 \<subseteq> set (fr_docs result)"
    using assms(3) by (auto simp: sort_rearranges_def split: option.splits)
  moreover have "set ?docs2 \<subseteq> set ?docs1"
    by (auto split: option.splits dest: in_set_dropD)
  ultimately have "set ?docs2 \<subseteq> set (fr_docs result)"
    by blast
  then have "\<forall>r \<in> set rs. \<exists>d \<in> set (fr_docs result). r = decodeDocument h model d"
    using rs by auto
  then show ?thesis
    using db sel' find tagged by blast
qed

lemma findOne_from_store:
  assumes "\<not> useModelAsDatabase cfg" and "find_honours_model couch"
    and "findOne h cfg couch model whr s0 = (Inr (Some r), s')"
  shows "\<exists>db s1.
           getDatabase couch (getModelName h model) cfg s0 = (Inr db, s1)
         \<and> ((\<exists>doc.
                db_get couch db
                  (JStr (js_String (js_prop (whereRecordOf
                     (transformWhereClause h whr (getDefaultModelName h model))) ''id''))) s1
                = (Inr doc, s')
                \<and> \<not> modelMismatch h cfg model doc
                \<and> r = decodeDocument h model doc)
            \<or> (\<exists>result.
                  db_find couch db
                    (resolveQuery h cfg model
                       (transformWhereClause h whr (getDefaultModelName h model))) s1
                  = (Inr result, s')
                  \<and> fr_docs result \<noteq> []
                  \<and> (\<forall>d \<in> set (fr_docs result).
                        obj_get d ''betterAuthModel'' = JStr (getModelName h model))
                  \<and> r = decodeDocument h model (hd (fr_docs result))))"
proof -
  let ?tw = "transformWhereClause h whr (getDefaultModelName h model)"
  obtain db s1 where db: "getDatabase couch (getModelName h model) cfg s0 = (Inr db, s1)"
    using assms(3)
    by (cases "getDatabase couch (getModelName h model) cfg s0")
       (auto simp: findOne_def io_defs Let_def split: sum.splits)
  have att: "findOne_attempt h cfg couch db model ?tw s1 = (Inr (Some r), s')"
    using assms(3) db
    by (cases "findOne_attempt h cfg couch db model ?tw s1")
       (auto simp: findOne_def io_defs Let_def split: sum.splits if_splits)
  show ?thesis
  proof (cases "truthy (js_prop (whereRecordOf ?tw) ''id'')")
    case True
    let ?id = "JStr (js_String (js_prop (whereRecordOf ?tw) ''id''))"
    obtain doc where "db_get couch db ?id s1 = (Inr doc, s')"
      and "\<not> modelMismatch h cfg model doc" and "r = decodeDocument h model doc"
      using att True
      by (cases "db_get couch db ?id s1")
         (auto simp: findOne_attempt_def io_defs Let_def split: sum.splits if_splits)
    then show ?thesis
      using db by blast
  next
    case False
    obtain result where f: "db_find couch db (resolveQuery h cfg model ?tw) s1 = (Inr result, s')"
      and ne: "fr_docs result \<noteq> []" and r: "r = decodeDocument h model (hd (fr_docs result))"
      using att False
      by (cases "db_find couch db (resolveQuery h cfg model ?tw) s1")
         (auto simp: findOne_attempt_def io_defs Let_def split: sum.splits if_splits)
    have "requires_model (q_selector (resolveQuery h cfg model ?tw)) (getModelName h model)"
      using assms(1) by (simp add: resolveQuery_def withModelFilter_requires)
    then have "\<forall>d \<in> set (fr_docs result). obj_get d ''betterAuthModel'' = JStr (getModelName h model)"
      using assms(2) f unfolding find_honours_model_def by blast
    then show ?thesis
      using db f ne r by blast
  qed
qed

lemma findOne_point_lookup_mismatch:
  assumes "getDatabase couch (getModelName h model) cfg s0 = (Inr db, s1)"
    and "truthy (js_prop (whereRecordOf
           (transformWhereClause h whr (getDefaultModelName h model))) ''id'')"
    and "db_get couch db
           (JStr (js_String (js_prop (whereRecordOf
              (transformWhereClause h whr (getDefaultModelName h model))) ''id''))) s1
         = (Inr doc, s2)"
    and "modelMismatch h cfg model doc"
  shows "findOne h cfg couch model whr s0 = (Inr None, s2)"
  using assms by (simp add: findOne_def findOne_attempt_def io_defs Let_def)

lemma count_selector:
  assumes "getDatabase couch (getModelName h model) cfg s0 = (Inr db, s1)"
  shows "count h cfg couch model whr s0 =
           count_loop couch db
             (withModelFilter h cfg model
                (selector_entries (convertWhereToSelector
                   (transformWhereClause h whr (getDefaultModelName h model)))))
             0 None s1"
  using assms by (simp add: count_def Let_def)

lemma other_stamp_mismatch:
  assumes "\<not> useModelAsDatabase cfg"
    and "getModelName h m1 \<noteq> getModelName h m2" and "getModelName h m1 \<noteq> []"
    and "obj_get doc ''betterAuthModel'' = JStr (getModelName h m1)"
  shows "modelMismatch h cfg m2 doc"
  using assms by (simp add: modelMismatch_def)

text \<open>
  Claim C9: under the shared-store topology, for models \<open>m1\<close> and \<open>m2\<close> with different
  names (the name of \<open>m1\<close> not empty), a store whose \<open>find\<close> honours the discriminator and an
  engine whose sort rearranges: the document that \<open>create\<close> writes for \<open>m1\<close> carries
  \<open>betterAuthModel\<close> equal to the name of \<open>m1\<close>; the selectors of \<open>findMany\<close>, of \<open>findOne\<close>
  and of \<open>count\<close> for \<open>m2\<close> require the name of \<open>m2\<close>, and the check of the point lookup
  rejects a document tagged \<open>m1\<close>. Hence, for \<open>m2\<close>: whatever \<open>findMany\<close> returns is the
  decoding of documents that the \<open>find\<close> of the store returned to it under the selector of
  \<open>findMany\<close>, and none of the documents this \<open>find\<close> returned carries the tag that \<open>create\<close>
  writes for \<open>m1\<close>; the document \<open>findOne\<close> returns is the decoding of the document that the
  \<open>get\<close> of the store returned for the point lookup, or of the first document that its \<open>find\<close>
  returned, and this document, like all that \<open>find\<close> returned, does not carry the tag of
  \<open>m1\<close>; when the \<open>get\<close> of the point lookup returns a document tagged \<open>m1\<close>, \<open>findOne\<close>
  returns \<open>null\<close>; and every page that the loop of \<open>count\<close> reads holds no document tagged
  \<open>m1\<close>.
\<close>

theorem models_are_not_cross_visible:
  assumes "\<not> useModelAsDatabase cfg"
    and "getModelName h m1 \<noteq> getModelName h m2"
    and "getModelName h m1 \<noteq> []"
    and "find_honours_model couch"
    and "sort_rearranges eng"
  shows "obj_get (create_transformedData h cfg m1 data) ''betterAuthModel'' = JStr (getModelName h m1)
       \<and> (\<forall>tw. requires_model (findMany_selector h cfg m2 tw) (getModelName h m2)
                \<and> requires_model (q_selector (resolveQuery h cfg m2 tw)) (getModelName h m2))
       \<and> (\<forall>selector. requires_model (withModelFilter h cfg m2 selector) (getModelName h m2))
       \<and> (\<forall>doc. obj_get doc ''betterAuthModel''
                    = obj_get (create_transformedData h cfg m1 data) ''betterAuthModel'' \<longrightarrow>
                  modelMismatch h cfg m2 doc)
       \<and> (\<forall>whr limit offset orderBy sortBy s0 rs s'.
             findMany eng h cfg couch m2 whr limit offset orderBy sortBy s0 = (Inr rs, s') \<longrightarrow>
             (\<exists>db s1 query s2 result.
                getDatabase couch (getModelName h m2) cfg s0 = (Inr db, s1)
                \<and> q_selector query =
                    findMany_selector h cfg m2 (transformWhereClause h whr (getDefaultModelName h m2))
                \<and> db_find couch db query s2 = (Inr result, s')
                \<and> (\<forall>d \<in> set (fr_docs result).
                      obj_get d ''betterAuthModel''
                        \<noteq> obj_get (create_transformedData h cfg m1 data) ''betterAuthModel'')
                \<and> (\<forall>r \<in> set rs. \<exists>d \<in> set (fr_docs result). r = decodeDocument h m2 d)))
       \<and> (\<forall>whr s0 r s'.
             findOne h cfg couch m2 whr s0 = (Inr (Some r), s') \<longrightarrow>
             (\<exists>db s1.
                getDatabase couch (getModelName h m2) cfg s0 = (Inr db, s1)
                \<and> ((\<exists>doc.
                       db_get couch db
                         (JStr (js_String (js_prop (whereRecordOf
                            (transformWhereClause h whr (getDefaultModelName h m2))) ''id''))) s1
                       = (Inr doc, s')
                       \<and> obj_get doc ''betterAuthModel''
                           \<noteq> obj_get (create_transformedData h cfg m1 data) ''betterAuthModel''
                       \<and> r = decodeDocument h m2 doc)
                    \<or> (\<exists>result.
                         db_find couch db
                           (resolveQuery h cfg m2
                              (transformWhereClause h whr (getDefaultModelName h m2))) s1
                         = (Inr result, s')
                         \<and> fr_docs result \<noteq> []
                         \<and> (\<forall>d \<in> set (fr_docs result).
                               obj_get d ''betterAuthModel''
                                 \<noteq> obj_get (create_transformedData h cfg m1 data) ''betterAuthModel'')
                         \<and> r = decodeDocument h m2 (hd (fr_docs result))))))
       \<and> (\<forall>whr s0 db s1 doc s2.
             getDatabase couch (getModelName h m2) cfg s0 = (Inr db, s1)
             \<and> truthy (js_prop (whereRecordOf
                  (transformWhereClause h whr (getDefaultModelName h m2))) ''id'')
             \<and> db_get couch db
                 (JStr (js_String (js_prop (whereRecordOf
                    (transformWhereClause h whr (getDefaultModelName h m2))) ''id''))) s1
               = (Inr doc, s2)
             \<and> obj_get doc ''betterAuthModel''
                 = obj_get (create_transformedData h cfg m1 data) ''betterAuthModel'' \<longrightarrow>
             findOne h cfg couch m2 whr s0 = (Inr None, s2))
       \<and> (\<forall>whr s0 db s1.
             getDatabase couch (getModelName h m2) cfg s0 = (Inr db, s1) \<longrightarrow>
             (\<exists>selector.
                count h cfg couch m2 whr s0 = count_loop couch db selector 0 None s1
                \<and> requires_model selector (getModelName h m2)
                \<and> (\<forall>bookmark s result s'.
                      db_find couch db (count_query selector bookmark) s = (Inr result, s') \<longrightarrow>
                      (\<forall>d \<in> set (fr_docs result).
                         obj_get d ''betterAuthModel''
                           \<noteq> obj_get (create_transformedData h cfg m1 data) ''betterAuthModel''))))"
proof -
  have stamp: "obj_get (create_transformedData h cfg m1 data) ''betterAuthModel''
               = JStr (getModelName h m1)"
    using assms(1) by (rule create_stamps_model)
  have p2: "\<forall>tw. requires_model (findMany_selector h cfg m2 tw) (getModelName h m2)
                \<and> requires_model (q_selector (resolveQuery h cfg m2 tw)) (getModelName h m2)"
    using assms(1) by (simp add: findMany_selector_requires resolveQuery_def withModelFilter_requires)
  have p3: "\<forall>selector. requires_model (withModelFilter h cfg m2 selector) (getModelName h m2)"
    using assms(1) by (simp add: withModelFilter_requires)
  have p4: "\<forall>doc. obj_get doc ''betterAuthModel''
                    = obj_get (create_transformedData h cfg m1 data) ''betterAuthModel'' \<longrightarrow>
                  modelMismatch h cfg m2 doc"
    using other_stamp_mismatch[OF assms(1-3)] stamp by simp
  have p5: "\<forall>whr limit offset orderBy sortBy s0 rs s'.
             findMany eng h cfg couch m2 whr limit offset orderBy sortBy s0 = (Inr rs, s') \<longrightarrow>
             (\<exists>db s1 query s2 result.
                getDatabase couch (getModelName h m2) cfg s0 = (Inr db, s1)
                \<and> q_selector query =
                    findMany_selector h cfg m2 (transformWhereClause h whr (getDefaultModelName h m2))
                \<and> db_find couch db query s2 = (Inr result, s')
                \<and> (\<forall>d \<in> set (fr_docs result).
                      obj_get d ''betterAuthModel''
                        \<noteq> obj_get (create_transformedData h cfg m1 data) ''betterAuthModel'')
                \<and> (\<forall>r \<in> set rs. \<exists>d \<in> set (fr_docs result). r = decodeDocument h m2 d))"
  proof (intro allI impI)
    fix whr limit offset orderBy sortBy s0 rs s'
    assume fm: "findMany eng h cfg couch m2 whr limit offset orderBy sortBy s0 = (Inr rs, s')"
    from findMany_from_store[OF assms(1,4,5) fm]
    obtain db s1 query s2 result where
      f1: "getDatabase couch (getModelName h m2) cfg s0 = (Inr db, s1)"
      and f2: "q_selector query =
         findMany_selector h cfg m2 (transformWhereClause h whr (getDefaultModelName h m2))"
      and f3: "db_find couch db query s2 = (Inr result, s')"
      and f4: "\<forall>d \<in> set (fr_docs result). obj_get d ''betterAuthModel'' = JStr (getModelName h m2)"
      and f5: "\<forall>r \<in> set rs. \<exists>d \<in> set (fr_docs result). r = decodeDocument h m2 d"
      by blast
    from f4 have f6:
      "\<forall>d \<in> set (fr_docs result).
         obj_get d ''betterAuthModel''
           \<noteq> obj_get (create_transformedData h cfg m1 data) ''betterAuthModel''"
      using stamp assms(2) by auto
    from f1 f2 f3 f6 f5 show "\<exists>db s1 query s2 result.
                getDatabase couch (getModelName h m2) cfg s0 = (Inr db, s1)
                \<and> q_selector query =
                    findMany_selector h cfg m2 (transformWhereClause h whr (getDefaultModelName h m2))
                \<and> db_find couch db query s2 = (Inr result, s')
                \<and> (\<forall>d \<in> set (fr_docs result).
                      obj_get d ''betterAuthModel''
                        \<noteq> obj_get (create_transformedData h cfg m1 data) ''betterAuthModel'')
                \<and> (\<forall>r \<in> set rs. \<exists>d \<in> set (fr_docs result). r = decodeDocument h m2 d)"
      by blast
  qed
  have mm: "\<not> modelMismatch h cfg m2 doc \<Longrightarrow>
            obj_get doc ''betterAuthModel''
              \<noteq> obj_get (create_transformedData h cfg m1 data) ''betterAuthModel''" for doc
    using p4 by blast
  have tg: "obj_get d ''betterAuthModel'' = JStr (getModelName h m2) \<Longrightarrow>
            obj_get d ''betterAuthModel''
              \<noteq> obj_get (create_transformedData h cfg m1 data) ''betterAuthModel''" for d
    using stamp assms(2) by simp
  have p6: "\<forall>whr s0 r s'.
             findOne h cfg couch m2 whr s0 = (Inr (Some r), s') \<longrightarrow>
             (\<exists>db s1.
                getDatabase couch (getModelName h m2) cfg s0 = (Inr db, s1)
                \<and> ((\<exists>doc.
                       db_get couch db
                         (JStr (js_String (js_prop (whereRecordOf
                            (transformWhereClause h whr (getDefaultModelName h m2))) ''id''))) s1
                       = (Inr doc, s')
                       \<and> obj_get doc ''betterAuthModel''
                           \<noteq> obj_get (create_transformedData h cfg m1 data) ''betterAuthModel''
                       \<and> r = decodeDocument h m2 doc)
                    \<or> (\<exists>result.
                         db_find couch db
                           (resolveQuery h cfg m2
                              (transformWhereClause h whr (getDefaultModelName h m2))) s1
                         = (Inr result, s')
                         \<and> fr_docs result \<noteq> []
                         \<and> (\<forall>d \<in> set (fr_docs result).
                               obj_get d ''betterAuthModel''
                                 \<noteq> obj_get (create_transformedData h cfg m1 data) ''betterAuthModel'')
                         \<and> r = decodeDocument h m2 (hd (fr_docs result)))))"
  proof (intro allI impI)
    fix whr s0 r s'
    assume "findOne h cfg couch m2 whr s0 = (Inr (Some r), s')"
    from findOne_from_store[OF assms(1,4) this]
    obtain db s1 where db: "getDatabase couch (getModelName h m2) cfg s0 = (Inr db, s1)"
      and alt: "(\<exists>doc.
                db_get couch db
                  (JStr (js_String (js_prop (whereRecordOf
                     (transformWhereClause h whr (getDefaultModelName h m2))) ''id''))) s1
                = (Inr doc, s')
                \<and> \<not> modelMismatch h cfg m2 doc
                \<and> r = decodeDocument h m2 doc)
            \<or> (\<exists>result.
                  db_find couch db
                    (resolveQuery h cfg m2
                       (transformWhereClause h whr (getDefaultModelName h m2))) s1
                  = (Inr result, s')
                  \<and> fr_docs result \<noteq> []
                  \<and> (\<forall>d \<in> set (fr_docs result).
                        obj_get d ''betterAuthModel'' = JStr (getModelName h m2))
                  \<and> r = decodeDocument h m2 (hd (fr_docs result)))"
      by blast
    from alt have "(\<exists>doc.
                       db_get couch db
                         (JStr (js_String (js_prop (whereRecordOf
                            (transformWhereClause h whr (getDefaultModelName h m2))) ''id''))) s1
                       = (Inr doc, s')
                       \<and> obj_get doc ''betterAuthModel''
                           \<noteq> obj_get (create_transformedData h cfg m1 data) ''betterAuthModel''
                       \<and> r = decodeDocument h m2 doc)
                    \<or> (\<exists>result.
                         db_find couch db
                           (resolveQuery h cfg m2
                              (transformWhereClause h whr (getDefaultModelName h m2))) s1
                         = (Inr result, s')
                         \<and> fr_docs result \<noteq> []
                         \<and> (\<forall>d \<in> set (fr_docs result).
                               obj_get d ''betterAuthModel''
                                 \<noteq> obj_get (create_transformedData h cfg m1 data) ''betterAuthModel'')
                         \<and> r = decodeDocument h m2 (hd (fr_docs result)))"
    proof (elim disjE exE conjE)
      fix doc
      assume "db_get couch db
                  (JStr (js_String (js_prop (whereRecordOf
                     (transformWhereClause h whr (getDefaultModelName h m2))) ''id''))) s1
                = (Inr doc, s')"
        and "\<not> modelMismatch h cfg m2 doc" and "r = decodeDocument h m2 doc"
      then show ?thesis using mm by blast
    next
      fix result
      assume "db_find couch db
                    (resolveQuery h cfg m2
                       (transformWhereClause h whr (getDefaultModelName h m2))) s1
                  = (Inr result, s')"
        and "fr_docs result \<noteq> []"
        and "\<forall>d \<in> set (fr_docs result).
                        obj_get d ''betterAuthModel'' = JStr (getModelName h m2)"
        and "r = decodeDocument h m2 (hd (fr_docs result))"
      then show ?thesis using tg by blast
    qed
    then show "\<exists>db s1.
                getDatabase couch (getModelName h m2) cfg s0 = (Inr db, s1)
                \<and> ((\<exists>doc.
                       db_get couch db
                         (JStr (js_String (js_prop (whereRecordOf
                            (transformWhereClause h whr (getDefaultModelName h m2))) ''id''))) s1
                       = (Inr doc, s')
                       \<and> obj_get doc ''betterAuthModel''
                           \<noteq> obj_get (create_transformedData h cfg m1 data) ''betterAuthModel''
                       \<and> r = decodeDocument h m2 doc)
                    \<or> (\<exists>result.
                         db_find couch db
                           (resolveQuery h cfg m2
                              (transformWhereClause h whr (getDefaultModelName h m2))) s1
                         = (Inr result, s')
                         \<and> fr_docs result \<noteq> []
                         \<and> (\<forall>d \<in> set (fr_docs result).
                               obj_get d ''betterAuthModel''
                                 \<noteq> obj_get (create_transformedData h cfg m1 data) ''betterAuthModel'')
                         \<and> r = decodeDocument h m2 (hd (fr_docs result))))"
      using db by blast
  qed
  have p6b: "\<forall>whr s0 db s1 doc s2.
             getDatabase couch (getModelName h m2) cfg s0 = (Inr db, s1)
             \<and> truthy (js_prop (whereRecordOf
                  (transformWhereClause h whr (getDefaultModelName h m2))) ''id'')
             \<and> db_get couch db
                 (JStr (js_String (js_prop (whereRecordOf
                    (transformWhereClause h whr (getDefaultModelName h m2))) ''id''))) s1
               = (Inr doc, s2)
             \<and> obj_get doc ''betterAuthModel''
                 = obj_get (create_transformedData h cfg m1 data) ''betterAuthModel'' \<longrightarrow>
             findOne h cfg couch m2 whr s0 = (Inr None, s2)"
  proof (intro allI impI, elim conjE)
    fix whr s0 db s1 doc s2
    assume g1: "getDatabase couch (getModelName h m2) cfg s0 = (Inr db, s1)"
      and g2: "truthy (js_prop (whereRecordOf
                  (transformWhereClause h whr (getDefaultModelName h m2))) ''id'')"
      and g3: "db_get couch db
                 (JStr (js_String (js_prop (whereRecordOf
                    (transformWhereClause h whr (getDefaultModelName h m2))) ''id''))) s1
               = (Inr doc, s2)"
      and g4: "obj_get doc ''betterAuthModel''
                 = obj_get (create_transformedData h cfg m1 data) ''betterAuthModel''"
    have "modelMismatch h cfg m2 doc"
      using p4 g4 by blast
    then show "findOne h cfg couch m2 whr s0 = (Inr None, s2)"
      by (rule findOne_point_lookup_mismatch[OF g1 g2 g3])
  qed
  have p7: "\<forall>whr s0 db s1.
             getDatabase couch (getModelName h m2) cfg s0 = (Inr db, s1) \<longrightarrow>
             (\<exists>selector.
                count h cfg couch m2 whr s0 = count_loop couch db selector 0 None s1
                \<and> requires_model selector (getModelName h m2)
                \<and> (\<forall>bookmark s result s'.
                      db_find couch db (count_query selector bookmark) s = (Inr result, s') \<longrightarrow>
                      (\<forall>d \<in> set (fr_docs result).
                         obj_get d ''betterAuthModel''
                           \<noteq> obj_get (create_transformedData h cfg m1 data) ''betterAuthModel'')))"
  proof (intro allI impI)
    fix whr s0 db s1
    assume db: "getDatabase couch (getModelName h m2) cfg s0 = (Inr db, s1)"
    let ?sel = "withModelFilter h cfg m2
                  (selector_entries (convertWhereToSelector
                     (transformWhereClause h whr (getDefaultModelName h m2))))"
    have req: "requires_model ?sel (getModelName h m2)"
      using p3 by blast
    have "\<forall>bookmark s result s'.
            db_find couch db (count_query ?sel bookmark) s = (Inr result, s') \<longrightarrow>
            (\<forall>d \<in> set (fr_docs result).
               obj_get d ''betterAuthModel''
                 \<noteq> obj_get (create_transformedData h cfg m1 data) ''betterAuthModel'')"
    proof (intro allI impI ballI)
      fix bookmark s result s' d
      assume f: "db_find couch db (count_query ?sel bookmark) s = (Inr result, s')"
        and d: "d \<in> set (fr_docs result)"
      have "requires_model (q_selector (count_query ?sel bookmark)) (getModelName h m2)"
        using req by (simp add: count_query_def)
      then have "obj_get d ''betterAuthModel'' = JStr (getModelName h m2)"
        using assms(4) f d unfolding find_honours_model_def by blast
      then show "obj_get d ''betterAuthModel''
                 \<noteq> obj_get (create_transformedData h cfg m1 data) ''betterAuthModel''"
        using stamp assms(2) by simp
    qed
    then show "\<exists>selector.
                count h cfg couch m2 whr s0 = count_loop couch db selector 0 None s1
                \<and> requires_model selector (getModelName h m2)
                \<and> (\<forall>bookmark s result s'.
                      db_find couch db (count_query selector bookmark) s = (Inr result, s') \<longrightarrow>
                      (\<forall>d \<in> set (fr_docs result).
                         obj_get d ''betterAuthModel''
                           \<noteq> obj_get (create_transformedData h cfg m1 data) ''betterAuthModel''))"
      using count_selector[OF db] req by blast
  qed
  show ?thesis
    by (intro conjI; (rule stamp p2 p3 p4 p5 p6 p6b p7))
qed

lemma set_binary_insert: "set (binary_insert cmp ys x) = insert x (set ys)"
proof -
  have "set (take k ys) \<union> set (drop k ys) = set ys" for k
    by (metis append_take_drop_id set_append)
  then show ?thesis
    by (simp add: binary_insert_def Let_def)
qed

lemma set_foldl_binary_insert:
  "set (foldl (binary_insert cmp) acc xs) = set acc \<union> set xs"
  by (induction xs arbitrary: acc) (auto simp: set_binary_insert)

lemma set_insertion_sort: "set (insertion_sort cmp xs) = set xs"
proof (cases xs)
  case Nil
  then show ?thesis by simp
next
  case (Cons a t)
  show ?thesis
  proof (cases t)
    case Nil
    then show ?thesis using Cons by simp
  next
    case (Cons b ys)
    let ?n = "2 + run_rest cmp (cmp b a < 0) b ys"
    have split: "set (take n xs) \<union> set (drop n xs) = set xs" for n
      by (metis append_take_drop_id set_append)
    have "insertion_sort cmp xs =
            foldl (binary_insert cmp)
              (if cmp b a < 0 then rev (take ?n xs) else take ?n xs) (drop ?n xs)"
      using \<open>xs = a # t\<close> Cons by (simp add: Let_def)
    then show ?thesis
      using split by (simp add: set_foldl_binary_insert)
  qed
qed

lemma insertion_engine_rearranges: "sort_rearranges insertion_engine"
  by (simp add: sort_rearranges_def insertion_engine_def set_insertion_sort)

text \<open>
  A store that honours the discriminator: the in-memory store, with the documents it finds
  checked once more against the discriminator entries of the selector, so that these hold
  together with the rest of the selector as they do in CouchDB.
\<close>

definition honours_model :: "obj \<Rightarrow> obj \<Rightarrow> bool" where
  "honours_model selector doc =
     ((case obj_get selector ''betterAuthModel'' of
         JStr name \<Rightarrow> obj_get doc ''betterAuthModel'' = JStr name
       | _ \<Rightarrow> True)
      \<and> (case obj_get selector ''$and'' of
            JArr sub \<Rightarrow>
              list_all
                (\<lambda>member. case member of
                    JObj [(k, JStr name)] \<Rightarrow>
                      k \<noteq> ''betterAuthModel'' \<or> obj_get doc ''betterAuthModel'' = JStr name
                  | _ \<Rightarrow> True)
                sub
          | _ \<Rightarrow> True))"

definition conjunctive_couch ::
  "engine \<Rightarrow> (string \<Rightarrow> string \<Rightarrow> bool option) \<Rightarrow> mock_state couch" where
  "conjunctive_couch eng regex_test =
     (mock_couch eng regex_test)
       \<lparr>db_find := (\<lambda>db query s.
          case mock_find eng regex_test db query s of
            (Inl e, s') \<Rightarrow> (Inl e, s')
          | (Inr result, s') \<Rightarrow>
              (Inr (result\<lparr>fr_docs := filter (honours_model (q_selector query)) (fr_docs result)\<rparr>),
               s'))\<rparr>"

lemma honours_requires:
  assumes "requires_model selector name" and "honours_model selector doc"
  shows "obj_get doc ''betterAuthModel'' = JStr name"
proof (cases "obj_get selector ''betterAuthModel'' = JStr name")
  case True
  then show ?thesis using assms(2) by (simp add: honours_model_def)
next
  case False
  then obtain sub where sub: "obj_get selector ''$and'' = JArr sub"
    and mem: "JObj [(''betterAuthModel'', JStr name)] \<in> set sub"
    using assms(1) by (auto simp: requires_model_def split: json.splits)
  have "list_all
          (\<lambda>member. case member of
              JObj [(k, JStr name)] \<Rightarrow>
                k \<noteq> ''betterAuthModel'' \<or> obj_get doc ''betterAuthModel'' = JStr name
            | _ \<Rightarrow> True) sub"
    using assms(2) sub by (simp add: honours_model_def)
  then show ?thesis
    using mem by (auto simp: list_all_iff)
qed

lemma conjunctive_couch_honours: "find_honours_model (conjunctive_couch eng regex_test)"
  unfolding find_honours_model_def
  by (auto simp: conjunctive_couch_def honours_requires split: prod.splits sum.splits)

text \<open>
  The claim on that store, which holds a user and a session with the same e-mail address:
  \<open>create\<close> for \<open>user\<close> stamps \<open>user\<close>; asked for sessions with that address,
  \<open>findMany\<close> returns the session only; \<open>findOne\<close> for \<open>session\<close> with the identifier of
  the user returns nothing.
\<close>

theorem models_are_not_cross_visible_witness:
  "obj_get (create_transformedData plain_host shared_config ''user'' [(''email'', JStr ''a@x.org'')])
     ''betterAuthModel'' = JStr ''user''
   \<and> findMany insertion_engine plain_host shared_config (conjunctive_couch insertion_engine no_regex) ''session''
       (JArr [Where ''email'' ''eq'' (JStr ''a@x.org'') ''AND'']) None None None None
       \<lparr>databases =
          [(''auth'',
            [(''u1'', [(''_id'', JStr ''u1''), (''_rev'', JStr ''1-r''),
                       (''email'', JStr ''a@x.org''), (''betterAuthModel'', JStr ''user'')]),
             (''s1'', [(''_id'', JStr ''s1''), (''_rev'', JStr ''1-r''),
                       (''email'', JStr ''a@x.org''), (''betterAuthModel'', JStr ''session'')])])],
        revCounter = [(''u1'', 1), (''s1'', 1)], clock = 0\<rparr>
     = (Inr [[(''_id'', JStr ''s1''), (''email'', JStr ''a@x.org''), (''id'', JStr ''s1'')]],
        \<lparr>databases =
           [(''auth'',
             [(''u1'', [(''_id'', JStr ''u1''), (''_rev'', JStr ''1-r''),
                        (''email'', JStr ''a@x.org''), (''betterAuthModel'', JStr ''user'')]),
              (''s1'', [(''_id'', JStr ''s1''), (''_rev'', JStr ''1-r''),
                        (''email'', JStr ''a@x.org''), (''betterAuthModel'', JStr ''session'')])])],
         revCounter = [(''u1'', 1), (''s1'', 1)], clock = 0\<rparr>)
   \<and> findOne plain_host shared_config (conjunctive_couch insertion_engine no_regex) ''session''
       (JObj [(''id'', JStr ''u1'')])
       \<lparr>databases =
          [(''auth'',
            [(''u1'', [(''_id'', JStr ''u1''), (''_rev'', JStr ''1-r''),
                       (''email'', JStr ''a@x.org''), (''betterAuthModel'', JStr ''user'')]),
             (''s1'', [(''_id'', JStr ''s1''), (''_rev'', JStr ''1-r''),
                       (''email'', JStr ''a@x.org''), (''betterAuthModel'', JStr ''session'')])])],
        revCounter = [(''u1'', 1), (''s1'', 1)], clock = 0\<rparr>
     = (Inr None,
        \<lparr>databases =
           [(''auth'',
             [(''u1'', [(''_id'', JStr ''u1''), (''_rev'', JStr ''1-r''),
                        (''email'', JStr ''a@x.org''), (''betterAuthModel'', JStr ''user'')]),
              (''s1'', [(''_id'', JStr ''s1''), (''_rev'', JStr ''1-r''),
                        (''email'', JStr ''a@x.org''), (''betterAuthModel'', JStr ''session'')])])],
         revCounter = [(''u1'', 1), (''s1'', 1)], clock = 0\<rparr>)"
proof -
  let ?st = "\<lparr>databases =
          [(''auth'',
            [(''u1'', [(''_id'', JStr ''u1''), (''_rev'', JStr ''1-r''),
                       (''email'', JStr ''a@x.org''), (''betterAuthModel'', JStr ''user'')]),
             (''s1'', [(''_id'', JStr ''s1''), (''_rev'', JStr ''1-r''),
                       (''email'', JStr ''a@x.org''), (''betterAuthModel'', JStr ''session'')])])],
        revCounter = [(''u1'', 1), (''s1'', 1)], clock = 0\<rparr>"
  have a1: "\<not> useModelAsDatabase shared_config"
    by (simp add: shared_config_def)
  have a2: "getModelName plain_host ''user'' \<noteq> getModelName plain_host ''session''"
    and a3: "getModelName plain_host ''user'' \<noteq> []"
    by (simp_all add: plain_host_def)
  have a5: "sort_rearranges insertion_engine"
    by (rule insertion_engine_rearranges)
  note th = models_are_not_cross_visible[OF a1 a2 a3 conjunctive_couch_honours a5,
      of "[(''email'', JStr ''a@x.org'')]"]
  have stamp: "obj_get (create_transformedData plain_host shared_config ''user''
                 [(''email'', JStr ''a@x.org'')]) ''betterAuthModel'' = JStr ''user''"
    using th[THEN conjunct1] by (simp add: plain_host_def)
  have many: "findMany insertion_engine plain_host shared_config (conjunctive_couch insertion_engine no_regex) ''session''
       (JArr [Where ''email'' ''eq'' (JStr ''a@x.org'') ''AND'']) None None None None ?st
     = (Inr [[(''_id'', JStr ''s1''), (''email'', JStr ''a@x.org''), (''id'', JStr ''s1'')]], ?st)"
    by (simp add: findMany_def findMany_query_def findMany_selector_def findMany_fetch_def
        getDatabase_def conjunctive_couch_def honours_model_def mock_defs plain_host_def
        shared_config_def io_defs Let_def selector_entries_def eval_where_defs
        decodeDocument_def cleanDocumentForTransform_def mergeOriginalFields_def)
  have one: "findOne plain_host shared_config (conjunctive_couch insertion_engine no_regex) ''session''
       (JObj [(''id'', JStr ''u1'')]) ?st = (Inr None, ?st)"
    by (simp add: findOne_def findOne_attempt_def whereRecordOf_def modelMismatch_def
        getDatabase_def conjunctive_couch_def mock_defs plain_host_def shared_config_def
        io_defs Let_def)
  show ?thesis
    using stamp many one by blast
qed

text \<open>
  \<open>MockCouchDB\<close> is not a store of that kind. Its \<open>matchesSelector\<close> returns at a
  \<open>$and\<close> or \<open>$or\<close> entry, so the entry \<open>betterAuthModel\<close> that \<open>findOne\<close> and \<open>count\<close>
  add after it is not looked at: with a filter of two conditions, \<open>findOne\<close> for \<open>session\<close>
  returns the user.
\<close>

lemma mock_findOne_ignores_top_level_discriminator:
  "findOne plain_host shared_config (mock_couch insertion_engine no_regex) ''session''
     (JArr [Where ''email'' ''eq'' (JStr ''a@x.org'') ''AND'',
            Where ''name'' ''eq'' (JStr ''Al'') ''AND''])
     \<lparr>databases =
        [(''auth'',
          [(''u1'', [(''_id'', JStr ''u1''), (''_rev'', JStr ''1-r''), (''email'', JStr ''a@x.org''),
                     (''name'', JStr ''Al''), (''betterAuthModel'', JStr ''user'')])])],
      revCounter = [(''u1'', 1)], clock = 0\<rparr>
   = (Inr (Some [(''_id'', JStr ''u1''), (''email'', JStr ''a@x.org''), (''name'', JStr ''Al''),
                 (''id'', JStr ''u1'')]),
      \<lparr>databases =
         [(''auth'',
           [(''u1'', [(''_id'', JStr ''u1''), (''_rev'', JStr ''1-r''), (''email'', JStr ''a@x.org''),
                      (''name'', JStr ''Al''), (''betterAuthModel'', JStr ''user'')])])],
       revCounter = [(''u1'', 1)], clock = 0\<rparr>)"
  by (simp add: findOne_def findOne_attempt_def whereRecordOf_def resolveQuery_def
      withModelFilter_def getDatabase_def mock_defs plain_host_def shared_config_def
      io_defs Let_def selector_entries_def eval_where_defs
      decodeDocument_def cleanDocumentForTransform_def mergeOriginalFields_def)

end
